theory Spec2Isabelle
  imports Main "HOL-Library.AList" "HOL-Library.Multiset" "HOL-Library.Word"
begin

section \<open>Values of the host language\<close>

text \<open>
  The session code is TypeScript. Its values are modelled as follows.
  \<^item> A \<open>number\<close> of the session (an entity identifier, \<open>dcId\<close>, \<open>port\<close>) is an integer
    or \<open>NaN\<close> (what \<open>parseInt\<close> gives for a key that does not start with a digit). The
    model is exact on the safe integers, those of absolute value below \<open>2^53\<close>; a
    larger integer that is a double is written by the engine with the shortest digits that
    give the double back, and by the model with all its digits.
  \<^item> A string is the list of the bytes of its UTF-8 form. A surrogate without its partner
    is written in three bytes like any other code unit of its size.
  \<^item> A \<open>Buffer\<close> is a list of bytes.
  \<^item> An entity is an \<open>any\<close> in the source. Here it is a JSON value (its structure)
    together with the identity of the object that holds it: two objects built
    separately have different identities even when their structure is the same.
  \<^item> A number inside a JSON value is the decimal number that was written: \<open>JNum\<close> an
    integer, and \<open>JDec m e\<close> the number \<open>m / 10^e\<close> when that is not an integer, with
    \<open>e\<close> the least possible. The engine rounds it to the nearest double; \<open>-0\<close> is \<open>0\<close>
    here, which no operation of the session tells apart.
\<close>

datatype number = Num int | NaN

type_synonym Buffer = "8 word list"

datatype json =
    JNull
  | JBool bool
  | JNum int
  | JDec int nat
  | JStr string
  | JArr "json list"
  | JObj "(string \<times> json) list"

record entity =
  ref :: nat
  shape :: json



section \<open>ExtendedMemorySession\<close>

text \<open>
  \<open>_customEntities\<close> is a \<open>Map\<close> from \<open>number\<close> to \<open>any\<close>: it keeps its entries in the
  order in which the keys were first set, \<open>set\<close> on a key already present replaces
  the value where it stands, and \<open>delete\<close> reports whether the key was there. The
  model is the list of entries in that order.
\<close>

record ExtendedMemorySession =
  customEntities :: "(number \<times> entity) list"


definition setEntity ::
  "number \<Rightarrow> entity \<Rightarrow> 'a ExtendedMemorySession_scheme \<Rightarrow> 'a ExtendedMemorySession_scheme" where
  "setEntity i e s = s\<lparr>customEntities := AList.update i e (customEntities s)\<rparr>"

definition entitiesMap :: "'a ExtendedMemorySession_scheme \<Rightarrow> (number \<times> entity) list" where
  "entitiesMap s = customEntities s"

definition clearEntities :: "'a ExtendedMemorySession_scheme \<Rightarrow> 'a ExtendedMemorySession_scheme" where
  "clearEntities s = s\<lparr>customEntities := []\<rparr>"

definition hasEntity :: "'a ExtendedMemorySession_scheme \<Rightarrow> number \<Rightarrow> bool" where
  "hasEntity s i = (map_of (customEntities s) i \<noteq> None)"

definition deleteEntity ::
  "number \<Rightarrow> 'a ExtendedMemorySession_scheme \<Rightarrow> bool \<times> 'a ExtendedMemorySession_scheme" where
  "deleteEntity i s =
     (map_of (customEntities s) i \<noteq> None,
      s\<lparr>customEntities := AList.delete i (customEntities s)\<rparr>)"

definition getAllEntities :: "'a ExtendedMemorySession_scheme \<Rightarrow> entity list" where
  "getAllEntities s = map snd (customEntities s)"




section \<open>The store\<close>

text \<open>
  A store file holds the table \<open>telegram_sessions\<close>. A row has the columns of the
  \<open>CREATE TABLE\<close> statement of \<open>ensureTable\<close>, each at the type it is declared
  with; a nullable column is an option.
  The two timestamps are what \<open>CURRENT_TIMESTAMP\<close> gave when they were written:
  a time in whole seconds since 1970 (SQLite writes it as the text \<open>YYYY-MM-DD HH:MM:SS\<close>,
  whose order as text is the order of the times).

  The rows are listed by ascending rowid. \<open>seq\<close> is the largest rowid the table
  has ever given out, which \<open>AUTOINCREMENT\<close> never uses again.
\<close>

record row =
  row_id :: nat
  name :: string
  auth_key :: "Buffer option"
  dc_id :: "int option"
  server_address :: "string option"
  row_port :: "int option"
  entities :: "string option"
  created_at :: int
  updated_at :: int

record table =
  rows :: "row list"
  seq :: nat

text \<open>
  The world outside a controller: the store files by path (a path with no file, and a
  file in which the table was never created, are both \<open>None\<close>: every operation
  below creates the table before it reads or writes), the other files by path, the clock
  in milliseconds, and the number of objects allocated so far, which is the identity of
  the next one.
\<close>

record world =
  dbs :: "string \<Rightarrow> table option"
  files :: "string \<Rightarrow> string option"
  clock :: int
  next_ref :: nat

definition CURRENT_TIMESTAMP :: "world \<Rightarrow> int" where
  "CURRENT_TIMESTAMP w = clock w div 1000"

subsection \<open>DatabaseManager\<close>

text \<open>
  A database handle is the path it was opened on. Opening a handle does not change the
  world; \<open>CREATE TABLE IF NOT EXISTS\<close> creates the empty table when there is none.
\<close>

definition createDatabase :: "string \<Rightarrow> string" where
  "createDatabase databasePath = databasePath"

definition ensureTable :: "string \<Rightarrow> world \<Rightarrow> world" where
  "ensureTable db w =
     (case dbs w db of
        None \<Rightarrow> w\<lparr>dbs := (dbs w)(db \<mapsto> \<lparr>rows = [], seq = 0\<rparr>)\<rparr>
      | Some t \<Rightarrow> w)"

text \<open>The table a statement runs on, once \<open>ensureTable\<close> has run on the handle.\<close>

definition the_table :: "string \<Rightarrow> world \<Rightarrow> table" where
  "the_table db w = (case dbs w db of None \<Rightarrow> \<lparr>rows = [], seq = 0\<rparr> | Some t \<Rightarrow> t)"

text \<open>\<open>SELECT * FROM telegram_sessions WHERE name = ?\<close>, first row or \<open>null\<close>.\<close>

definition loadSessionData :: "string \<Rightarrow> string \<Rightarrow> world \<Rightarrow> row option" where
  "loadSessionData db sessionName w =
     find (\<lambda>r. name r = sessionName) (rows (the_table db w))"

text \<open>
  \<open>INSERT OR REPLACE\<close> with the columns \<open>name, auth_key, dc_id, server_address,
  port, entities, updated_at\<close>. The statement inserts a new row. Where the new row
  breaks the \<open>UNIQUE\<close> constraint on \<open>name\<close>, \<open>OR REPLACE\<close> deletes the
  row that is in the way before it inserts. The columns the statement does not name take
  their defaults: \<open>id\<close> the next rowid of \<open>AUTOINCREMENT\<close>, \<open>created_at\<close>
  the \<open>CURRENT_TIMESTAMP\<close> of the statement.
\<close>

record session_fields =
  f_authKey :: "Buffer option"
  f_dcId :: "int option"
  f_serverAddress :: "string option"
  f_port :: "int option"
  f_entities :: "string option"

definition next_rowid :: "table \<Rightarrow> nat" where
  "next_rowid t = Suc (max (seq t) (Max (set (0 # map row_id (rows t)))))"

definition insert_or_replace :: "string \<Rightarrow> session_fields \<Rightarrow> int \<Rightarrow> table \<Rightarrow> table" where
  "insert_or_replace sessionName d now t =
     (let i = next_rowid t;
          r = \<lparr>row_id = i, name = sessionName, auth_key = f_authKey d, dc_id = f_dcId d,
               server_address = f_serverAddress d, row_port = f_port d,
               entities = f_entities d, created_at = now, updated_at = now\<rparr>
      in \<lparr>rows = filter (\<lambda>r'. name r' \<noteq> sessionName) (rows t) @ [r], seq = i\<rparr>)"

definition saveSessionData :: "string \<Rightarrow> string \<Rightarrow> session_fields \<Rightarrow> world \<Rightarrow> world" where
  "saveSessionData db sessionName d w =
     w\<lparr>dbs := (dbs w)(db \<mapsto>
         insert_or_replace sessionName d (CURRENT_TIMESTAMP w) (the_table db w))\<rparr>"

text \<open>\<open>DELETE FROM telegram_sessions WHERE name = ?\<close>\<close>

definition deleteSessionData :: "string \<Rightarrow> string \<Rightarrow> world \<Rightarrow> world" where
  "deleteSessionData db sessionName w =
     w\<lparr>dbs := (dbs w)(db \<mapsto>
         (the_table db w)\<lparr>rows := filter (\<lambda>r. name r \<noteq> sessionName) (rows (the_table db w))\<rparr>)\<rparr>"

text \<open>
  \<open>SELECT name, created_at, updated_at ... ORDER BY created_at DESC\<close>. SQL leaves
  the order of rows with the same \<open>created_at\<close> open; SQLite's sorter keeps
  them in the order in which it read them, which is the order of the rowids. The model
  sorts stably by descending time.
\<close>

record session_entry =
  e_name :: string
  e_created_at :: int
  e_updated_at :: int

definition select_entry :: "row \<Rightarrow> session_entry" where
  "select_entry r = \<lparr>e_name = name r, e_created_at = created_at r, e_updated_at = updated_at r\<rparr>"

definition order_by_created_at_desc :: "row list \<Rightarrow> row list" where
  "order_by_created_at_desc rs = sort_key (\<lambda>r. - created_at r) rs"

definition listSessions :: "string \<Rightarrow> world \<Rightarrow> session_entry list \<times> world" where
  "listSessions databasePath w =
     (let db = createDatabase databasePath;
          w1 = ensureTable db w
      in (map select_entry (order_by_created_at_desc (rows (the_table db w1))), w1))"


section \<open>Numbers and strings\<close>

text \<open>
  \<open>Number.prototype.toString\<close> on an integer below \<open>10^21\<close>: its decimal digits, most
  significant first, after a minus sign when it is negative. \<open>digit_char\<close> is called
  on numbers below 16 only.
\<close>

definition digit_char :: "nat \<Rightarrow> char" where
  "digit_char d = ''0123456789abcdef'' ! d"

function digits :: "int \<Rightarrow> string" where
  "digits n =
     (if n < 10 then [digit_char (nat n)]
      else digits (n div 10) @ [digit_char (nat (n mod 10))])"
  by pat_completeness auto
termination
  by (relation "measure nat") auto

declare digits.simps [simp del]

text \<open>
  The text of a positive number from its significant digits \<open>s\<close> and the place \<open>n\<close> of
  its decimal point (the number is \<open>0.s\<close> times \<open>10^n\<close>): all the digits when the point
  is at one of the first 21 places after them, a fraction with up to six zeros after the
  point, and exponent notation everywhere else.
\<close>

definition significant :: "string \<Rightarrow> string" where
  "significant ds = rev (dropWhile (\<lambda>c. c = CHR ''0'') (rev ds))"

definition exponent_text :: "string \<Rightarrow> int \<Rightarrow> string" where
  "exponent_text s n =
     take 1 s @ (if length s \<le> 1 then [] else CHR ''.'' # drop 1 s)
     @ ''e'' @ (if 1 \<le> n then ''+'' else ''-'') @ digits (abs (n - 1))"

definition decimal_text :: "string \<Rightarrow> int \<Rightarrow> string" where
  "decimal_text s n =
     (let k = int (length s) in
      if k \<le> n \<and> n \<le> 21 then s @ replicate (nat (n - k)) CHR ''0''
      else if 0 < n \<and> n \<le> 21 then take (nat n) s @ ''.'' @ drop (nat n) s
      else if - 6 < n \<and> n \<le> 0 then ''0.'' @ replicate (nat (- n)) CHR ''0'' @ s
      else exponent_text s n)"

text \<open>An integer that is not negative: all its digits below \<open>10^21\<close>.\<close>

definition integer_text :: "int \<Rightarrow> string" where
  "integer_text v =
     (if v < 10 ^ 21 then digits v
      else exponent_text (significant (digits v)) (int (length (digits v))))"

fun Number_toString :: "number \<Rightarrow> string" where
  "Number_toString NaN = ''NaN''"
| "Number_toString (Num n) = (if n < 0 then CHR ''-'' # integer_text (- n) else integer_text n)"

text \<open>The value of a digit in base 16 or less; letters in either case.\<close>

definition digit_val :: "char \<Rightarrow> nat option" where
  "digit_val c = map_of
     [(CHR ''0'', 0), (CHR ''1'', 1), (CHR ''2'', 2), (CHR ''3'', 3), (CHR ''4'', 4),
      (CHR ''5'', 5), (CHR ''6'', 6), (CHR ''7'', 7), (CHR ''8'', 8), (CHR ''9'', 9),
      (CHR ''a'', 10), (CHR ''b'', 11), (CHR ''c'', 12), (CHR ''d'', 13), (CHR ''e'', 14),
      (CHR ''f'', 15), (CHR ''A'', 10), (CHR ''B'', 11), (CHR ''C'', 12), (CHR ''D'', 13),
      (CHR ''E'', 14), (CHR ''F'', 15)] c"

definition is_digit :: "nat \<Rightarrow> char \<Rightarrow> bool" where
  "is_digit radix c = (case digit_val c of None \<Rightarrow> False | Some d \<Rightarrow> d < radix)"

definition digits_value :: "nat \<Rightarrow> string \<Rightarrow> int" where
  "digits_value radix z = foldl (\<lambda>a c. a * int radix + int (the (digit_val c))) 0 z"

text \<open>
  \<open>parseInt(string)\<close> with no radix: white space at the start is dropped, then an
  optional sign, then \<open>0x\<close> or \<open>0X\<close> selects base 16; the longest run of digits
  that follows is the number, and \<open>NaN\<close> when that run is empty. Whatever follows
  the digits is ignored.

  The white space is the characters of \<open>StrWhiteSpaceChar\<close>: six of one byte, the
  no-break space \<open>U+00A0\<close> of two bytes, and of three bytes \<open>U+1680\<close>,
  \<open>U+2000\<close> to \<open>U+200A\<close>, \<open>U+2028\<close>, \<open>U+2029\<close>, \<open>U+202F\<close>, \<open>U+205F\<close>,
  \<open>U+3000\<close> and \<open>U+FEFF\<close>.
\<close>

definition is_StrWhiteSpaceChar :: "char \<Rightarrow> bool" where
  "is_StrWhiteSpaceChar c =
     (c \<in> set [CHR 0x09, CHR 0x0A, CHR 0x0B, CHR 0x0C, CHR 0x0D, CHR 0x20])"

definition is_StrWhiteSpaceChar2 :: "char \<Rightarrow> char \<Rightarrow> bool" where
  "is_StrWhiteSpaceChar2 a b = (a = CHR 0xC2 \<and> b = CHR 0xA0)"

definition is_StrWhiteSpaceChar3 :: "char \<Rightarrow> char \<Rightarrow> char \<Rightarrow> bool" where
  "is_StrWhiteSpaceChar3 a b c =
     ((a = CHR 0xE1 \<and> b = CHR 0x9A \<and> c = CHR 0x80)
      \<or> (a = CHR 0xE2 \<and> b = CHR 0x80
          \<and> ((0x80 \<le> (of_char c :: nat) \<and> (of_char c :: nat) \<le> 0x8A)
             \<or> c = CHR 0xA8 \<or> c = CHR 0xA9 \<or> c = CHR 0xAF))
      \<or> (a = CHR 0xE2 \<and> b = CHR 0x81 \<and> c = CHR 0x9F)
      \<or> (a = CHR 0xE3 \<and> b = CHR 0x80 \<and> c = CHR 0x80)
      \<or> (a = CHR 0xEF \<and> b = CHR 0xBB \<and> c = CHR 0xBF))"

fun trim_start :: "string \<Rightarrow> string" where
  "trim_start (a # b # c # r) =
     (if is_StrWhiteSpaceChar a then trim_start (b # c # r)
      else if is_StrWhiteSpaceChar2 a b then trim_start (c # r)
      else if is_StrWhiteSpaceChar3 a b c then trim_start r
      else a # b # c # r)"
| "trim_start [a, b] =
     (if is_StrWhiteSpaceChar a then trim_start [b]
      else if is_StrWhiteSpaceChar2 a b then []
      else [a, b])"
| "trim_start [a] = (if is_StrWhiteSpaceChar a then [] else [a])"
| "trim_start [] = []"

definition parseInt :: "string \<Rightarrow> number" where
  "parseInt str =
     (let s = trim_start str;
          neg = (case s of [] \<Rightarrow> False | c # _ \<Rightarrow> c = CHR ''-'');
          s1 = (case s of [] \<Rightarrow> s | c # r \<Rightarrow> if c = CHR ''-'' \<or> c = CHR ''+'' then r else s);
          hex = (case s1 of a # b # _ \<Rightarrow> a = CHR ''0'' \<and> (b = CHR ''x'' \<or> b = CHR ''X'') | _ \<Rightarrow> False);
          radix = (if hex then 16 else 10);
          s2 = (if hex then drop 2 s1 else s1);
          z = takeWhile (is_digit radix) s2
      in if z = [] then NaN
         else Num ((if neg then - 1 else 1) * digits_value radix z))"

subsection \<open>Code units\<close>

text \<open>
  The bytes of a code point, and the code units of a string of bytes, each as a string
  of its own: a character of one, two or three bytes is one code unit, and a character of
  four bytes is two surrogates.
\<close>

definition utf8 :: "int \<Rightarrow> string" where
  "utf8 n =
     (if n < 0x80 then [char_of n]
      else if n < 0x800 then [char_of (0xC0 + n div 64), char_of (0x80 + n mod 64)]
      else if n < 0x10000
        then [char_of (0xE0 + n div 4096), char_of (0x80 + n div 64 mod 64),
              char_of (0x80 + n mod 64)]
      else [char_of (0xF0 + n div 262144), char_of (0x80 + n div 4096 mod 64),
            char_of (0x80 + n div 64 mod 64), char_of (0x80 + n mod 64)])"

definition code_point4 :: "char \<Rightarrow> char \<Rightarrow> char \<Rightarrow> char \<Rightarrow> int" where
  "code_point4 a b c d =
     (of_char a mod 8) * 262144 + (of_char b mod 64) * 4096
       + (of_char c mod 64) * 64 + of_char d mod 64"

fun code_units :: "string \<Rightarrow> string list" where
  "code_units [] = []"
| "code_units (a # r) =
     (if (of_char a :: nat) < 0xC0 then [a] # code_units r
      else if (of_char a :: nat) < 0xE0 then (a # take 1 r) # code_units (drop 1 r)
      else if (of_char a :: nat) < 0xF0 then (a # take 2 r) # code_units (drop 2 r)
      else (case r of
              b # c # d # r' \<Rightarrow>
                utf8 (0xD800 + (code_point4 a b c d - 0x10000) div 1024)
                # utf8 (0xDC00 + (code_point4 a b c d - 0x10000) mod 1024)
                # code_units r'
            | _ \<Rightarrow> [a # r]))"

subsection \<open>Buffers as hexadecimal text\<close>

text \<open>
  \<open>buffer.toString('hex')\<close> writes two lower-case digits for each byte.
  \<open>Buffer.from(text, 'hex')\<close> reads pairs of digits and stops at the first pair
  that is not two hexadecimal digits; a single digit left at the end is dropped.
\<close>

definition hex_of_byte :: "8 word \<Rightarrow> string" where
  "hex_of_byte b = [digit_char (unat b div 16), digit_char (unat b mod 16)]"

definition Buffer_toString_hex :: "Buffer \<Rightarrow> string" where
  "Buffer_toString_hex buf = concat (map hex_of_byte buf)"

fun Buffer_from_hex :: "string \<Rightarrow> Buffer" where
  "Buffer_from_hex (a # b # r) =
     (case (digit_val a, digit_val b) of
        (Some x, Some y) \<Rightarrow> of_nat (16 * x + y) # Buffer_from_hex r
      | _ \<Rightarrow> [])"
| "Buffer_from_hex _ = []"

section \<open>JSON\<close>

subsection \<open>Objects and their keys\<close>

text \<open>
  The keys of an object come out (in \<open>Object.entries\<close>, in \<open>JSON.stringify\<close>)
  with the array indices first, in ascending order, and then the other keys in the order
  in which they were created. An array index is the decimal text of an integer from
  \<open>0\<close> to \<open>2^32 - 2\<close>. A \<open>JObj\<close> lists its properties in that order, and
  \<open>obj_put\<close> defines a property as the engine does: a key that exists keeps its
  place.
\<close>

definition array_index :: "string \<Rightarrow> int option" where
  "array_index k =
     (if k \<noteq> [] \<and> list_all (is_digit 10) k \<and> (k = ''0'' \<or> hd k \<noteq> CHR ''0'')
         \<and> digits_value 10 k < 4294967295
      then Some (digits_value 10 k) else None)"

fun insert_index :: "int \<Rightarrow> string \<Rightarrow> json \<Rightarrow> (string \<times> json) list \<Rightarrow> (string \<times> json) list" where
  "insert_index n k v [] = [(k, v)]"
| "insert_index n k v (p # ps) =
     (case array_index (fst p) of
        Some m \<Rightarrow> if m < n then p # insert_index n k v ps else (k, v) # p # ps
      | None \<Rightarrow> (k, v) # p # ps)"

definition obj_put :: "string \<Rightarrow> json \<Rightarrow> (string \<times> json) list \<Rightarrow> (string \<times> json) list" where
  "obj_put k v ps =
     (if map_of ps k \<noteq> None then AList.update k v ps
      else case array_index k of
             Some n \<Rightarrow> insert_index n k v ps
           | None \<Rightarrow> ps @ [(k, v)])"

text \<open>
  \<open>Object.fromEntries\<close> on the entries of the entity map: each key is turned into a
  property key by \<open>Number.prototype.toString\<close>, each value is the entity's structure.
\<close>

definition Object_fromEntries :: "(number \<times> entity) list \<Rightarrow> json" where
  "Object_fromEntries m =
     JObj (foldl (\<lambda>ps (i, e). obj_put (Number_toString i) (shape e) ps) [] m)"

text \<open>
  \<open>Object.entries\<close>: the properties of an object; the elements of an array and the
  code units of a string under their indices; nothing for a number or a boolean;
  a \<open>TypeError\<close> (here \<open>None\<close>) for \<open>null\<close>.
\<close>

definition indexed :: "json list \<Rightarrow> (string \<times> json) list" where
  "indexed xs = zip (map (\<lambda>i. digits (int i)) [0..<length xs]) xs"

fun Object_entries :: "json \<Rightarrow> (string \<times> json) list option" where
  "Object_entries JNull = None"
| "Object_entries (JBool b) = Some []"
| "Object_entries (JNum n) = Some []"
| "Object_entries (JDec m e) = Some []"
| "Object_entries (JStr s) = Some (indexed (map JStr (code_units s)))"
| "Object_entries (JArr xs) = Some (indexed xs)"
| "Object_entries (JObj ps) = Some ps"

text \<open>Whether a value counts as true in a condition; \<open>None\<close> is \<open>undefined\<close>.\<close>

fun truthy :: "json option \<Rightarrow> bool" where
  "truthy None = False"
| "truthy (Some JNull) = False"
| "truthy (Some (JBool b)) = b"
| "truthy (Some (JNum n)) = (n \<noteq> 0)"
| "truthy (Some (JDec m e)) = (m \<noteq> 0)"
| "truthy (Some (JStr s)) = (s \<noteq> [])"
| "truthy (Some (JArr xs)) = True"
| "truthy (Some (JObj ps)) = True"

text \<open>
  Reading one of the properties \<open>dc_id\<close>, \<open>server_address\<close>, \<open>port\<close>,
  \<open>auth_key\<close>, \<open>entities\<close> of a value that is not \<open>null\<close>: only an object
  can have them.
\<close>

fun get_prop :: "json \<Rightarrow> string \<Rightarrow> json option" where
  "get_prop (JObj ps) k = map_of ps k"
| "get_prop _ k = None"

subsection \<open>\<open>JSON.stringify\<close>\<close>

definition quote_char :: "char \<Rightarrow> string" where
  "quote_char c =
     (if c = CHR 0x22 then [CHR 0x5C, CHR 0x22]
      else if c = CHR 0x5C then [CHR 0x5C, CHR 0x5C]
      else if c = CHR 0x08 then [CHR 0x5C, CHR ''b'']
      else if c = CHR 0x0C then [CHR 0x5C, CHR ''f'']
      else if c = CHR 0x0A then [CHR 0x5C, CHR ''n'']
      else if c = CHR 0x0D then [CHR 0x5C, CHR ''r'']
      else if c = CHR 0x09 then [CHR 0x5C, CHR ''t'']
      else if (of_char c :: nat) < 32
        then [CHR 0x5C, CHR ''u'', CHR ''0'', CHR ''0'',
              digit_char (of_char c div 16), digit_char (of_char c mod 16)]
      else [c])"

text \<open>
  A surrogate without its partner is written as the escape \<open>\uXXXX\<close> of its code unit;
  in a string of bytes it is the byte \<open>ED\<close> followed by a byte from \<open>A0\<close> on.
\<close>

definition is_surrogate :: "char \<Rightarrow> char \<Rightarrow> bool" where
  "is_surrogate a b = (a = CHR 0xED \<and> 0xA0 \<le> (of_char b :: nat))"

definition unicode_escape :: "nat \<Rightarrow> string" where
  "unicode_escape n =
     [CHR 0x5C, CHR ''u'', digit_char (n div 4096 mod 16), digit_char (n div 256 mod 16),
      digit_char (n div 16 mod 16), digit_char (n mod 16)]"

fun quote_chars :: "string \<Rightarrow> string" where
  "quote_chars (a # b # c # r) =
     (if is_surrogate a b
      then unicode_escape (0xD000 + of_char b mod 64 * 64 + of_char c mod 64) @ quote_chars r
      else quote_char a @ quote_chars (b # c # r))"
| "quote_chars (a # r) = quote_char a @ quote_chars r"
| "quote_chars [] = []"

definition QuoteJSONString :: "string \<Rightarrow> string" where
  "QuoteJSONString s = CHR 0x22 # quote_chars s @ [CHR 0x22]"

fun join :: "string \<Rightarrow> string list \<Rightarrow> string" where
  "join sep [] = []"
| "join sep [x] = x"
| "join sep (x # y # ys) = x @ sep @ join sep (y # ys)"

text \<open>With no indentation, as \<open>save\<close> calls it.\<close>

fun JSON_stringify :: "json \<Rightarrow> string" where
  "JSON_stringify JNull = ''null''"
| "JSON_stringify (JBool b) = (if b then ''true'' else ''false'')"
| "JSON_stringify (JNum n) = Number_toString (Num n)"
| "JSON_stringify (JDec m e) =
     (if m < 0 then ''-'' else [])
     @ decimal_text (digits (abs m)) (int (length (digits (abs m))) - int e)"
| "JSON_stringify (JStr s) = QuoteJSONString s"
| "JSON_stringify (JArr xs) = ''['' @ join '','' (map JSON_stringify xs) @ '']''"
| "JSON_stringify (JObj ps) =
     ''{'' @ join '','' (map (\<lambda>p. QuoteJSONString (fst p) @ '':'' @ JSON_stringify (snd p)) ps) @ ''}''"

text \<open>
  With an indentation of two spaces a level, as \<open>exportToFile\<close> calls it;
  \<open>n\<close> is the level of the value being written.
\<close>

definition indent :: "nat \<Rightarrow> string" where
  "indent n = replicate (2 * n) CHR 0x20"

fun JSON_stringify_2 :: "nat \<Rightarrow> json \<Rightarrow> string" where
  "JSON_stringify_2 n (JArr xs) =
     (if xs = [] then ''[]''
      else ''['' @ [CHR 0x0A] @ indent (Suc n)
           @ join ('','' @ [CHR 0x0A] @ indent (Suc n)) (map (JSON_stringify_2 (Suc n)) xs)
           @ [CHR 0x0A] @ indent n @ '']'')"
| "JSON_stringify_2 n (JObj ps) =
     (if ps = [] then ''{}''
      else ''{'' @ [CHR 0x0A] @ indent (Suc n)
           @ join ('','' @ [CHR 0x0A] @ indent (Suc n))
               (map (\<lambda>p. QuoteJSONString (fst p) @ '': '' @ JSON_stringify_2 (Suc n) (snd p)) ps)
           @ [CHR 0x0A] @ indent n @ ''}'')"
| "JSON_stringify_2 n v = JSON_stringify v"


subsection \<open>\<open>JSON.parse\<close>\<close>

text \<open>
  The grammar of JSON texts, read by recursive descent. Each function takes the text
  that is left and returns what it read with the rest, or \<open>None\<close> where the engine
  throws a \<open>SyntaxError\<close>.
\<close>

definition is_ws :: "char \<Rightarrow> bool" where
  "is_ws c = (c = CHR 0x20 \<or> c = CHR 0x09 \<or> c = CHR 0x0A \<or> c = CHR 0x0D)"

definition skip_ws :: "string \<Rightarrow> string" where
  "skip_ws s = dropWhile is_ws s"

definition unescape :: "char \<Rightarrow> char option" where
  "unescape e = map_of
     [(CHR 0x22, CHR 0x22), (CHR 0x5C, CHR 0x5C), (CHR ''/'', CHR ''/''),
      (CHR ''b'', CHR 0x08), (CHR ''f'', CHR 0x0C), (CHR ''n'', CHR 0x0A),
      (CHR ''r'', CHR 0x0D), (CHR ''t'', CHR 0x09)] e"

definition hex4 :: "char \<Rightarrow> char \<Rightarrow> char \<Rightarrow> char \<Rightarrow> int option" where
  "hex4 a b c d =
     (case (digit_val a, digit_val b, digit_val c, digit_val d) of
        (Some x, Some y, Some z, Some u) \<Rightarrow>
          Some (((int x * 16 + int y) * 16 + int z) * 16 + int u)
      | _ \<Rightarrow> None)"

text \<open>
  The escape of a second surrogate at the start of a text: after the escape of a first
  surrogate the two are one character.
\<close>

definition low_escape :: "string \<Rightarrow> (int \<times> string) option" where
  "low_escape s =
     (case s of
        q # u # a # b # c # d # r \<Rightarrow>
          if q = CHR 0x5C \<and> u = CHR ''u'' then
            (case hex4 a b c d of
               None \<Rightarrow> None
             | Some m \<Rightarrow> if 0xDC00 \<le> m \<and> m < 0xE000 then Some (m, r) else None)
          else None
      | _ \<Rightarrow> None)"

definition prepend :: "string \<Rightarrow> (string \<times> string) option \<Rightarrow> (string \<times> string) option" where
  "prepend t x = (case x of None \<Rightarrow> None | Some (u, rest) \<Rightarrow> Some (t @ u, rest))"

text \<open>The characters of a string after its opening quote, up to the closing quote.\<close>

function parse_string_chars :: "string \<Rightarrow> (string \<times> string) option" where
  "parse_string_chars [] = None"
| "parse_string_chars (c # cs) =
     (if c = CHR 0x22 then Some ([], cs)
      else if c = CHR 0x5C then
        (case cs of
           [] \<Rightarrow> None
         | e # r \<Rightarrow>
             if e = CHR ''u'' then
               (case r of
                  a # b # c' # d # r' \<Rightarrow>
                    (case hex4 a b c' d of
                       None \<Rightarrow> None
                     | Some n \<Rightarrow>
                         (case (if 0xD800 \<le> n \<and> n < 0xDC00 then low_escape r' else None) of
                            Some (m, r'') \<Rightarrow>
                              prepend (utf8 (0x10000 + (n - 0xD800) * 1024 + (m - 0xDC00)))
                                (parse_string_chars r'')
                          | None \<Rightarrow> prepend (utf8 n) (parse_string_chars r')))
                | _ \<Rightarrow> None)
             else
               (case unescape e of
                  None \<Rightarrow> None
                | Some ch \<Rightarrow> prepend [ch] (parse_string_chars r)))
      else if (of_char c :: nat) < 32 then None
      else prepend [c] (parse_string_chars cs))"
  by pat_completeness auto
termination
  by (relation "measure length")
    (auto simp: low_escape_def split: if_splits list.splits option.splits)

text \<open>
  A number: an optional minus sign; \<open>0\<close> or a run of digits that does not start with
  \<open>0\<close>; then, each optional, a point with digits after it, and \<open>e\<close> or \<open>E\<close> with a
  sign and digits after it. Its value is the digits before and after the point as one
  integer \<open>m\<close>, times ten to the power \<open>x\<close>, the exponent less the number of digits after
  the point.
\<close>

fun strip_zeros :: "int \<Rightarrow> nat \<Rightarrow> int \<times> nat" where
  "strip_zeros m 0 = (m, 0)"
| "strip_zeros m (Suc e) = (if m mod 10 = 0 then strip_zeros (m div 10) e else (m, Suc e))"

definition decimal :: "int \<Rightarrow> int \<Rightarrow> json" where
  "decimal m x =
     (if 0 \<le> x then JNum (m * 10 ^ nat x)
      else case strip_zeros m (nat (- x)) of
             (m', 0) \<Rightarrow> JNum m'
           | (m', Suc e) \<Rightarrow> JDec m' (Suc e))"

definition parse_fraction :: "string \<Rightarrow> (string \<times> string) option" where
  "parse_fraction s =
     (case s of
        [] \<Rightarrow> Some ([], s)
      | c # r \<Rightarrow>
          if c = CHR ''.'' then
            (let f = takeWhile (is_digit 10) r
             in if f = [] then None else Some (f, drop (length f) r))
          else Some ([], s))"

definition parse_exponent :: "string \<Rightarrow> (int \<times> string) option" where
  "parse_exponent s =
     (case s of
        [] \<Rightarrow> Some (0, s)
      | c # r \<Rightarrow>
          if c = CHR ''e'' \<or> c = CHR ''E'' then
            (let neg = (case r of [] \<Rightarrow> False | d # _ \<Rightarrow> d = CHR ''-'');
                 r1 = (case r of [] \<Rightarrow> r | d # t \<Rightarrow> if d = CHR ''-'' \<or> d = CHR ''+'' then t else r);
                 x = takeWhile (is_digit 10) r1
             in if x = [] then None
                else Some ((if neg then - 1 else 1) * digits_value 10 x, drop (length x) r1))
          else Some (0, s))"

definition parse_number :: "string \<Rightarrow> (json \<times> string) option" where
  "parse_number s =
     (let neg = (case s of [] \<Rightarrow> False | c # _ \<Rightarrow> c = CHR ''-'');
          s1 = (if neg then drop 1 s else s);
          z = (case s1 of [] \<Rightarrow> [] | c # _ \<Rightarrow>
                 if c = CHR ''0'' then [c] else takeWhile (is_digit 10) s1)
      in if z = [] then None
         else
           (case parse_fraction (drop (length z) s1) of
              None \<Rightarrow> None
            | Some (f, s2) \<Rightarrow>
                (case parse_exponent s2 of
                   None \<Rightarrow> None
                 | Some (x, rest) \<Rightarrow>
                     Some (decimal ((if neg then - 1 else 1) * digits_value 10 (z @ f))
                             (x - int (length f)), rest))))"

definition parse_literal :: "string \<Rightarrow> (json \<times> string) option" where
  "parse_literal s =
     (if take 4 s = ''null'' then Some (JNull, drop 4 s)
      else if take 4 s = ''true'' then Some (JBool True, drop 4 s)
      else if take 5 s = ''false'' then Some (JBool False, drop 5 s)
      else None)"

text \<open>
  Values, the elements of an array after its bracket, and the members of an object
  after its brace. The first argument bounds the calls that are still allowed; every
  call that lowers it is on a text that is shorter by a character at least, so a bound
  above the length of the text is never reached. The members of an object are defined
  one after the other, so a key that comes twice keeps the last value.
\<close>

fun parse_value :: "nat \<Rightarrow> string \<Rightarrow> (json \<times> string) option"
  and parse_elements :: "nat \<Rightarrow> string \<Rightarrow> (json list \<times> string) option"
  and parse_members :: "nat \<Rightarrow> string \<Rightarrow> ((string \<times> json) list \<times> string) option"
where
  "parse_value 0 s = None"
| "parse_value (Suc n) s =
     (case skip_ws s of
        [] \<Rightarrow> None
      | c # r \<Rightarrow>
          if c = CHR ''['' then
            (case skip_ws r of
               [] \<Rightarrow> None
             | c' # r' \<Rightarrow>
                 if c' = CHR '']'' then Some (JArr [], r')
                 else (case parse_elements n r of
                         None \<Rightarrow> None
                       | Some (xs, rest) \<Rightarrow> Some (JArr xs, rest)))
          else if c = CHR ''{'' then
            (case skip_ws r of
               [] \<Rightarrow> None
             | c' # r' \<Rightarrow>
                 if c' = CHR ''}'' then Some (JObj [], r')
                 else (case parse_members n r of
                         None \<Rightarrow> None
                       | Some (ps, rest) \<Rightarrow>
                           Some (JObj (foldl (\<lambda>acc p. obj_put (fst p) (snd p) acc) [] ps), rest)))
          else if c = CHR 0x22 then
            (case parse_string_chars r of
               None \<Rightarrow> None
             | Some (t, rest) \<Rightarrow> Some (JStr t, rest))
          else if c = CHR ''-'' \<or> is_digit 10 c then parse_number (c # r)
          else parse_literal (c # r))"
| "parse_elements 0 s = None"
| "parse_elements (Suc n) s =
     (case parse_value (Suc n) s of
        None \<Rightarrow> None
      | Some (v, r) \<Rightarrow>
          (case skip_ws r of
             [] \<Rightarrow> None
           | c # r' \<Rightarrow>
               if c = CHR '','' then
                 (case parse_elements n r' of
                    None \<Rightarrow> None
                  | Some (vs, rest) \<Rightarrow> Some (v # vs, rest))
               else if c = CHR '']'' then Some ([v], r')
               else None))"
| "parse_members 0 s = None"
| "parse_members (Suc n) s =
     (case skip_ws s of
        [] \<Rightarrow> None
      | q # r \<Rightarrow>
          if q = CHR 0x22 then
            (case parse_string_chars r of
               None \<Rightarrow> None
             | Some (k, r1) \<Rightarrow>
                 (case skip_ws r1 of
                    [] \<Rightarrow> None
                  | c1 # r2 \<Rightarrow>
                      if c1 = CHR '':'' then
                        (case parse_value (Suc n) r2 of
                           None \<Rightarrow> None
                         | Some (v, r3) \<Rightarrow>
                             (case skip_ws r3 of
                                [] \<Rightarrow> None
                              | c3 # r4 \<Rightarrow>
                                  if c3 = CHR '','' then
                                    (case parse_members n r4 of
                                       None \<Rightarrow> None
                                     | Some (ps, rest) \<Rightarrow> Some ((k, v) # ps, rest))
                                  else if c3 = CHR ''}'' then Some ([(k, v)], r4)
                                  else None))
                      else None))
          else None)"

text \<open>The whole text is one value, with white space around it at most.\<close>

definition JSON_parse :: "string \<Rightarrow> json option" where
  "JSON_parse s =
     (case parse_value (Suc (length s)) s of
        None \<Rightarrow> None
      | Some (v, rest) \<Rightarrow> if skip_ws rest = [] then Some v else None)"


section \<open>Dates\<close>

text \<open>
  \<open>new Date().toISOString()\<close> at a clock reading in milliseconds since 1970, for
  the years with four digits: \<open>YYYY-MM-DDTHH:MM:SS.mmmZ\<close>. The date of a day
  number is computed in the proleptic Gregorian calendar, in eras of 400 years that
  start on a first of March.
\<close>

definition pad :: "nat \<Rightarrow> int \<Rightarrow> string" where
  "pad width n = replicate (width - length (digits n)) CHR ''0'' @ digits n"

definition civil_from_days :: "int \<Rightarrow> int \<times> int \<times> int" where
  "civil_from_days days =
     (let z = days + 719468;
          era = z div 146097;
          doe = z mod 146097;
          yoe = (doe - doe div 1460 + doe div 36524 - doe div 146096) div 365;
          doy = doe - (365 * yoe + yoe div 4 - yoe div 100);
          mp = (5 * doy + 2) div 153;
          d = doy - (153 * mp + 2) div 5 + 1;
          m = (if mp < 10 then mp + 3 else mp - 9);
          y = yoe + era * 400 + (if m \<le> 2 then 1 else 0)
      in (y, m, d))"

definition toISOString :: "int \<Rightarrow> string" where
  "toISOString ms =
     (let (y, m, d) = civil_from_days (ms div 86400000);
          t = ms mod 86400000
      in pad 4 y @ ''-'' @ pad 2 m @ ''-'' @ pad 2 d @ ''T''
         @ pad 2 (t div 3600000) @ '':'' @ pad 2 (t div 60000 mod 60) @ '':''
         @ pad 2 (t div 1000 mod 60) @ ''.'' @ pad 3 (t mod 1000) @ ''Z'')"

section \<open>The credential\<close>

text \<open>
  \<open>AuthKey\<close> is the client library's class. The session uses three of its
  operations: the constructor, which holds no key; \<open>setKey\<close> on a buffer, which
  holds that buffer; \<open>getKey\<close>, which gives the buffer held or \<open>undefined\<close>.
\<close>

datatype AuthKey = AuthKey (key: "Buffer option")

definition new_AuthKey :: AuthKey where
  "new_AuthKey = AuthKey None"

definition setKey :: "Buffer \<Rightarrow> AuthKey \<Rightarrow> AuthKey" where
  "setKey v k = AuthKey (Some v)"

definition getKey :: "AuthKey \<Rightarrow> Buffer option" where
  "getKey k = key k"

section \<open>Errors\<close>

text \<open>
  What the operations below throw: \<open>NotFound\<close> is the error
  \<open>Session file not found\<close> and \<open>FormatError\<close> the error
  \<open>Invalid session file: missing dc_id\<close> of \<open>FileExportManager\<close>;
  \<open>SyntaxError\<close> is thrown by \<open>JSON.parse\<close>; \<open>TypeError\<close> by the engine
  when a property of \<open>null\<close> or \<open>undefined\<close> is read, when something that is
  not a function is called, and by \<open>Buffer.from\<close> and \<open>Object.entries\<close> on an
  argument they do not take.
\<close>

datatype error = NotFound | FormatError | SyntaxError | TypeError

section \<open>FileExportManager\<close>

text \<open>
  The directories of the file system are not modelled: \<open>exportToFile\<close> creates
  the directory of the file when it is missing, and then writes the file.
\<close>

definition FileExportManager_exportToFile :: "string \<Rightarrow> json \<Rightarrow> world \<Rightarrow> string \<times> world" where
  "FileExportManager_exportToFile filePath sessionData w =
     (filePath, w\<lparr>files := (files w)(filePath \<mapsto> JSON_stringify_2 0 sessionData)\<rparr>)"

definition is_number :: "json option \<Rightarrow> bool" where
  "is_number v = (case v of Some (JNum n) \<Rightarrow> True | Some (JDec m e) \<Rightarrow> True | _ \<Rightarrow> False)"

definition FileExportManager_importFromFile :: "string \<Rightarrow> world \<Rightarrow> error + json" where
  "FileExportManager_importFromFile filePath w =
     (case files w filePath of
        None \<Rightarrow> Inl NotFound
      | Some text \<Rightarrow>
          (case JSON_parse text of
             None \<Rightarrow> Inl SyntaxError
           | Some data \<Rightarrow>
               if data = JNull then Inl TypeError
               else if \<not> is_number (get_prop data ''dc_id'') then Inl FormatError
               else Inr data))"

section \<open>SessionManager\<close>

definition deleteSession :: "string \<Rightarrow> string \<Rightarrow> world \<Rightarrow> world" where
  "deleteSession databasePath sessionName w =
     (let db = databasePath;
          w1 = ensureTable db w
      in deleteSessionData db sessionName w1)"

definition sessionExists :: "string \<Rightarrow> string \<Rightarrow> world \<Rightarrow> bool \<times> world" where
  "sessionExists databasePath sessionName w =
     (let (sessions, w1) = listSessions databasePath w
      in (list_ex (\<lambda>session. e_name session = sessionName) sessions, w1))"

record session_exists_info =
  i_exists :: bool
  i_created_at :: "int option"
  i_updated_at :: "int option"

definition SessionManager_getSessionInfo ::
  "string \<Rightarrow> string \<Rightarrow> world \<Rightarrow> session_exists_info \<times> world" where
  "SessionManager_getSessionInfo databasePath sessionName w =
     (let (sessions, w1) = listSessions databasePath w
      in (case find (\<lambda>s. e_name s = sessionName) sessions of
            Some session \<Rightarrow>
              \<lparr>i_exists = True, i_created_at = Some (e_created_at session),
               i_updated_at = Some (e_updated_at session)\<rparr>
          | None \<Rightarrow> \<lparr>i_exists = False, i_created_at = None, i_updated_at = None\<rparr>,
          w1))"

section \<open>SqliteSession\<close>

text \<open>
  The controller extends \<open>ExtendedMemorySession\<close>. \<open>db\<close> is the open handle or
  \<open>null\<close>; the four fields of \<open>sessionData\<close> are optional, \<open>None\<close> is
  \<open>undefined\<close>. \<open>load\<close> and \<open>importFromFile\<close> are asynchronous in the
  source; the model runs each to its end before the next operation starts.

  An operation takes the controller and the world and returns both as it leaves them.
\<close>

record SqliteSession = ExtendedMemorySession +
  db :: "string option"
  isLoaded :: bool
  databasePath :: string
  sessionName :: string
  authKey :: "AuthKey option"
  dcId :: "number option"
  serverAddress :: "string option"
  port :: "number option"

record SessionInfo =
  info_name :: string
  info_dcId :: number
  hasAuth :: bool
  entitiesCount :: nat

text \<open>
  A value that \<open>JSON.parse\<close> built is a new object: it takes the next identity.
\<close>

definition new_object :: "json \<Rightarrow> world \<Rightarrow> entity \<times> world" where
  "new_object v w = (\<lparr>ref = next_ref w, shape = v\<rparr>, w\<lparr>next_ref := Suc (next_ref w)\<rparr>)"

text \<open>The operand of \<open>|| null\<close>, \<open>|| 0\<close>, \<open>|| 443\<close> and \<open>|| ''\<close> when it counts as true.\<close>

definition truthy_number :: "number option \<Rightarrow> int option" where
  "truthy_number v = (case v of Some (Num n) \<Rightarrow> if n \<noteq> 0 then Some n else None | _ \<Rightarrow> None)"

definition truthy_string :: "string option \<Rightarrow> string option" where
  "truthy_string v = (case v of Some a \<Rightarrow> if a \<noteq> [] then Some a else None | None \<Rightarrow> None)"

definition truthy_int :: "int option \<Rightarrow> int option" where
  "truthy_int v = (case v of Some n \<Rightarrow> if n \<noteq> 0 then Some n else None | None \<Rightarrow> None)"

definition or_else :: "'a option \<Rightarrow> 'a \<Rightarrow> 'a" where
  "or_else v d = (case v of Some x \<Rightarrow> x | None \<Rightarrow> d)"

text \<open>
  The fields \<open>dc_id\<close>, \<open>server_address\<close> and \<open>port\<close> of an imported document are
  stored as they are. The model follows the declared types: a string, an integer, or
  nothing (\<open>undefined\<close> and \<open>null\<close>, which every later use treats alike); a document
  in which one of them has another type, or is a number that is not an integer, is
  outside the model, and the field is read as nothing.
\<close>

definition as_number :: "json option \<Rightarrow> number option" where
  "as_number v = (case v of Some (JNum n) \<Rightarrow> Some (Num n) | _ \<Rightarrow> None)"

definition as_string :: "json option \<Rightarrow> string option" where
  "as_string v = (case v of Some (JStr a) \<Rightarrow> Some a | _ \<Rightarrow> None)"


subsection \<open>The class of \<open>src/unnamed/part_000\<close>\<close>

definition new_SqliteSession :: "string \<Rightarrow> string option \<Rightarrow> SqliteSession" where
  "new_SqliteSession path sname =
     \<lparr>customEntities = [], db = None, isLoaded = False, databasePath = path,
      sessionName = or_else sname ''default'',
      authKey = None, dcId = None, serverAddress = None, port = None\<rparr>"

definition init :: "SqliteSession \<Rightarrow> world \<Rightarrow> string \<times> SqliteSession \<times> world" where
  "init s w =
     (case db s of
        None \<Rightarrow>
          (let d = createDatabase (databasePath s)
           in (d, s\<lparr>db := Some d\<rparr>, ensureTable d w))
      | Some d \<Rightarrow> (d, s, w))"

definition save :: "SqliteSession \<Rightarrow> world \<Rightarrow> string \<times> SqliteSession \<times> world" where
  "save s w =
     (let (d, s1, w1) = init s w;
          k = (case authKey s1 of None \<Rightarrow> None | Some a \<Rightarrow> getKey a);
          ents = (if length (entitiesMap s1) > 0
                  then Some (JSON_stringify (Object_fromEntries (entitiesMap s1)))
                  else None);
          w2 = saveSessionData d (sessionName s1)
                 \<lparr>f_authKey = k,
                  f_dcId = truthy_number (dcId s1),
                  f_serverAddress = truthy_string (serverAddress s1),
                  f_port = truthy_number (port s1),
                  f_entities = ents\<rparr> w1
      in (sessionName s1, s1, w2))"

definition saveToDB :: "SqliteSession \<Rightarrow> world \<Rightarrow> SqliteSession \<times> world" where
  "saveToDB s w =
     (if \<not> isLoaded s then (s, w)
      else (let (n, s1, w1) = save s w in (s1, w1)))"

definition setDC ::
  "number \<Rightarrow> string \<Rightarrow> number \<Rightarrow> SqliteSession \<Rightarrow> world \<Rightarrow> SqliteSession \<times> world" where
  "setDC dc address p s w =
     saveToDB (s\<lparr>dcId := Some dc, serverAddress := Some address, port := Some p\<rparr>) w"

definition get_authKey :: "SqliteSession \<Rightarrow> AuthKey option" where
  "get_authKey s = authKey s"

definition set_authKey ::
  "AuthKey option \<Rightarrow> SqliteSession \<Rightarrow> world \<Rightarrow> SqliteSession \<times> world" where
  "set_authKey v s w = saveToDB (s\<lparr>authKey := v\<rparr>) w"

definition SqliteSession_setEntity ::
  "number \<Rightarrow> entity \<Rightarrow> SqliteSession \<Rightarrow> world \<Rightarrow> SqliteSession \<times> world" where
  "SqliteSession_setEntity i e s w = saveToDB (setEntity i e s) w"

text \<open>
  The loop \<open>for (const [key, value] of Object.entries(...)) this.setEntity(parseInt(key), value)\<close>
  of \<open>load\<close> and of \<open>importFromFile\<close>.
\<close>

fun set_entries ::
  "(string \<times> json) list \<Rightarrow> SqliteSession \<Rightarrow> world \<Rightarrow> SqliteSession \<times> world" where
  "set_entries [] s w = (s, w)"
| "set_entries (p # ps) s w =
     (let (e, w1) = new_object (snd p) w;
          (s2, w2) = SqliteSession_setEntity (parseInt (fst p)) e s w1
      in set_entries ps s2 w2)"

definition load :: "SqliteSession \<Rightarrow> world \<Rightarrow> SqliteSession \<times> world" where
  "load s w =
     (if isLoaded s then (s, w)
      else
        (let (d, s0, w0) = init s w;
             (s3, w3) =
               (case loadSessionData d (sessionName s0) w0 of
                  None \<Rightarrow> (s0, w0)
                | Some r \<Rightarrow>
                    (let s1 = (case auth_key r of
                                 None \<Rightarrow> s0
                               | Some b \<Rightarrow>
                                   if length b > 0
                                   then s0\<lparr>authKey := Some (setKey b new_AuthKey)\<rparr>
                                   else s0);
                         s2 = (if truthy_int (dc_id r) \<noteq> None
                               then s1\<lparr>dcId := map_option Num (dc_id r),
                                       serverAddress :=
                                         Some (or_else (truthy_string (server_address r)) []),
                                       port := Some (Num (or_else (truthy_int (row_port r)) 443))\<rparr>
                               else s1)
                     in (case truthy_string (entities r) of
                           None \<Rightarrow> (s2, w0)
                         | Some text \<Rightarrow>
                             (case JSON_parse text of
                                None \<Rightarrow> (s2, w0)
                              | Some j \<Rightarrow>
                                  (case Object_entries j of
                                     None \<Rightarrow> (s2, w0)
                                   | Some ps \<Rightarrow> set_entries ps s2 w0)))))
         in (s3\<lparr>isLoaded := True\<rparr>, w3)))"

definition exportToFile :: "string \<Rightarrow> SqliteSession \<Rightarrow> world \<Rightarrow> string \<times> world" where
  "exportToFile filePath s w =
     (let authKeyHex =
            (case authKey s of
               None \<Rightarrow> None
             | Some a \<Rightarrow>
                 (case getKey a of
                    None \<Rightarrow> None
                  | Some keyBuffer \<Rightarrow> Some (Buffer_toString_hex keyBuffer)));
          sessionData = JObj
            [(''dc_id'', JNum (or_else (truthy_number (dcId s)) 0)),
             (''server_address'', JStr (or_else (truthy_string (serverAddress s)) [])),
             (''port'', JNum (or_else (truthy_number (port s)) 443)),
             (''auth_key'', (case authKeyHex of None \<Rightarrow> JNull | Some h \<Rightarrow> JStr h)),
             (''entities'', Object_fromEntries (entitiesMap s)),
             (''exported_at'', JStr (toISOString (clock w)))]
      in FileExportManager_exportToFile filePath sessionData w)"

text \<open>
  The key of an imported document, from its \<open>auth_key\<close> when that counts as
  true: a new \<open>AuthKey\<close> is stored first, then \<open>Buffer.from(..., 'hex')\<close>
  decodes a string and throws a \<open>TypeError\<close> on a number, on \<open>true\<close> and on
  an object. (It also takes an array and an object with a \<open>length\<close>, which the
  model refuses like any other object.)
\<close>

definition import_authKey :: "json \<Rightarrow> SqliteSession \<Rightarrow> error option \<times> SqliteSession" where
  "import_authKey data s =
     (if truthy (get_prop data ''auth_key'') then
        (case get_prop data ''auth_key'' of
           Some (JStr h) \<Rightarrow>
             (None, s\<lparr>authKey := Some (setKey (Buffer_from_hex h) new_AuthKey)\<rparr>)
         | _ \<Rightarrow> (Some TypeError, s\<lparr>authKey := Some new_AuthKey\<rparr>))
      else (None, s))"

definition importFromFile ::
  "string \<Rightarrow> SqliteSession \<Rightarrow> world \<Rightarrow> (error + unit) \<times> SqliteSession \<times> world" where
  "importFromFile filePath s w =
     (case FileExportManager_importFromFile filePath w of
        Inl e \<Rightarrow> (Inl e, s, w)
      | Inr data \<Rightarrow>
          (case import_authKey data s of
             (Some e, s1) \<Rightarrow> (Inl e, s1, w)
           | (None, s1) \<Rightarrow>
               (let s2 = s1\<lparr>dcId := as_number (get_prop data ''dc_id''),
                            serverAddress := as_string (get_prop data ''server_address''),
                            port := as_number (get_prop data ''port'')\<rparr>;
                    s3 = clearEntities s2
                in (case (case get_prop data ''entities'' of
                            None \<Rightarrow> None
                          | Some v \<Rightarrow> Object_entries v) of
                      None \<Rightarrow> (Inl TypeError, s3, w)
                    | Some ps \<Rightarrow>
                        (let (s4, w4) = set_entries ps s3 w;
                             (n, s5, w5) = save s4 w4
                         in (Inr (), s5, w5))))))"

definition delete :: "SqliteSession \<Rightarrow> world \<Rightarrow> SqliteSession \<times> world" where
  "delete s w = (s\<lparr>isLoaded := False\<rparr>, deleteSession (databasePath s) (sessionName s) w)"

definition close :: "SqliteSession \<Rightarrow> SqliteSession" where
  "close s = (case db s of Some d \<Rightarrow> s\<lparr>db := None\<rparr> | None \<Rightarrow> s)"

definition getSessionInfo :: "SqliteSession \<Rightarrow> SessionInfo" where
  "getSessionInfo s =
     \<lparr>info_name = sessionName s,
      info_dcId = Num (or_else (truthy_number (dcId s)) 0),
      hasAuth = (authKey s \<noteq> None),
      entitiesCount = length (entitiesMap s)\<rparr>"

text \<open>
  The static members. \<open>listSessions\<close> is the function
  \<open>DatabaseManager.listSessions\<close> itself, which calls \<open>this.createDatabase\<close>:
  called as a member of \<open>SqliteSession\<close>, \<open>this\<close> is that class, which has
  no \<open>createDatabase\<close>, and the call throws. The other three are functions of
  \<open>SessionManager\<close> that do not use \<open>this\<close>.
\<close>

definition SqliteSession_listSessions ::
  "string \<Rightarrow> world \<Rightarrow> (error + session_entry list) \<times> world" where
  "SqliteSession_listSessions path w = (Inl TypeError, w)"

definition SqliteSession_deleteSession :: "string \<Rightarrow> string \<Rightarrow> world \<Rightarrow> world" where
  "SqliteSession_deleteSession = deleteSession"

definition SqliteSession_sessionExists :: "string \<Rightarrow> string \<Rightarrow> world \<Rightarrow> bool \<times> world" where
  "SqliteSession_sessionExists = sessionExists"

definition SqliteSession_getSessionInfo ::
  "string \<Rightarrow> string \<Rightarrow> world \<Rightarrow> session_exists_info \<times> world" where
  "SqliteSession_getSessionInfo = SessionManager_getSessionInfo"

subsection \<open>The class of \<open>src/unnamed/part_001\<close>\<close>

text \<open>The second definition of the class, with the suffix \<open>_001\<close>.\<close>

definition new_SqliteSession_001 :: "string \<Rightarrow> string option \<Rightarrow> SqliteSession" where
  "new_SqliteSession_001 path sname =
     \<lparr>customEntities = [], db = None, isLoaded = False, databasePath = path,
      sessionName = or_else sname ''default'',
      authKey = None, dcId = None, serverAddress = None, port = None\<rparr>"

definition init_001 :: "SqliteSession \<Rightarrow> world \<Rightarrow> string \<times> SqliteSession \<times> world" where
  "init_001 s w =
     (case db s of
        None \<Rightarrow>
          (let d = createDatabase (databasePath s)
           in (d, s\<lparr>db := Some d\<rparr>, ensureTable d w))
      | Some d \<Rightarrow> (d, s, w))"

definition save_001 :: "SqliteSession \<Rightarrow> world \<Rightarrow> string \<times> SqliteSession \<times> world" where
  "save_001 s w =
     (let (d, s1, w1) = init_001 s w;
          k = (case authKey s1 of None \<Rightarrow> None | Some a \<Rightarrow> getKey a);
          ents = (if length (entitiesMap s1) > 0
                  then Some (JSON_stringify (Object_fromEntries (entitiesMap s1)))
                  else None);
          w2 = saveSessionData d (sessionName s1)
                 \<lparr>f_authKey = k,
                  f_dcId = truthy_number (dcId s1),
                  f_serverAddress = truthy_string (serverAddress s1),
                  f_port = truthy_number (port s1),
                  f_entities = ents\<rparr> w1
      in (sessionName s1, s1, w2))"

definition saveToDB_001 :: "SqliteSession \<Rightarrow> world \<Rightarrow> SqliteSession \<times> world" where
  "saveToDB_001 s w =
     (if \<not> isLoaded s then (s, w)
      else (let (n, s1, w1) = save_001 s w in (s1, w1)))"

definition setDC_001 ::
  "number \<Rightarrow> string \<Rightarrow> number \<Rightarrow> SqliteSession \<Rightarrow> world \<Rightarrow> SqliteSession \<times> world" where
  "setDC_001 dc address p s w =
     saveToDB_001 (s\<lparr>dcId := Some dc, serverAddress := Some address, port := Some p\<rparr>) w"

definition get_authKey_001 :: "SqliteSession \<Rightarrow> AuthKey option" where
  "get_authKey_001 s = authKey s"

definition set_authKey_001 ::
  "AuthKey option \<Rightarrow> SqliteSession \<Rightarrow> world \<Rightarrow> SqliteSession \<times> world" where
  "set_authKey_001 v s w = saveToDB_001 (s\<lparr>authKey := v\<rparr>) w"

definition SqliteSession_setEntity_001 ::
  "number \<Rightarrow> entity \<Rightarrow> SqliteSession \<Rightarrow> world \<Rightarrow> SqliteSession \<times> world" where
  "SqliteSession_setEntity_001 i e s w = saveToDB_001 (setEntity i e s) w"

text \<open>
  The loop \<open>for (const [key, value] of Object.entries(...)) this.setEntity(parseInt(key), value)\<close>
  of \<open>load\<close> and of \<open>importFromFile\<close>.
\<close>

fun set_entries_001 ::
  "(string \<times> json) list \<Rightarrow> SqliteSession \<Rightarrow> world \<Rightarrow> SqliteSession \<times> world" where
  "set_entries_001 [] s w = (s, w)"
| "set_entries_001 (p # ps) s w =
     (let (e, w1) = new_object (snd p) w;
          (s2, w2) = SqliteSession_setEntity_001 (parseInt (fst p)) e s w1
      in set_entries_001 ps s2 w2)"

definition load_001 :: "SqliteSession \<Rightarrow> world \<Rightarrow> SqliteSession \<times> world" where
  "load_001 s w =
     (if isLoaded s then (s, w)
      else
        (let (d, s0, w0) = init_001 s w;
             (s3, w3) =
               (case loadSessionData d (sessionName s0) w0 of
                  None \<Rightarrow> (s0, w0)
                | Some r \<Rightarrow>
                    (let s1 = (case auth_key r of
                                 None \<Rightarrow> s0
                               | Some b \<Rightarrow>
                                   if length b > 0
                                   then s0\<lparr>authKey := Some (setKey b new_AuthKey)\<rparr>
                                   else s0);
                         s2 = (if truthy_int (dc_id r) \<noteq> None
                               then s1\<lparr>dcId := map_option Num (dc_id r),
                                       serverAddress :=
                                         Some (or_else (truthy_string (server_address r)) []),
                                       port := Some (Num (or_else (truthy_int (row_port r)) 443))\<rparr>
                               else s1)
                     in (case truthy_string (entities r) of
                           None \<Rightarrow> (s2, w0)
                         | Some text \<Rightarrow>
                             (case JSON_parse text of
                                None \<Rightarrow> (s2, w0)
                              | Some j \<Rightarrow>
                                  (case Object_entries j of
                                     None \<Rightarrow> (s2, w0)
                                   | Some ps \<Rightarrow> set_entries_001 ps s2 w0)))))
         in (s3\<lparr>isLoaded := True\<rparr>, w3)))"

definition exportToFile_001 :: "string \<Rightarrow> SqliteSession \<Rightarrow> world \<Rightarrow> string \<times> world" where
  "exportToFile_001 filePath s w =
     (let authKeyHex =
            (case authKey s of
               None \<Rightarrow> None
             | Some a \<Rightarrow>
                 (case getKey a of
                    None \<Rightarrow> None
                  | Some keyBuffer \<Rightarrow> Some (Buffer_toString_hex keyBuffer)));
          sessionData = JObj
            [(''dc_id'', JNum (or_else (truthy_number (dcId s)) 0)),
             (''server_address'', JStr (or_else (truthy_string (serverAddress s)) [])),
             (''port'', JNum (or_else (truthy_number (port s)) 443)),
             (''auth_key'', (case authKeyHex of None \<Rightarrow> JNull | Some h \<Rightarrow> JStr h)),
             (''entities'', Object_fromEntries (entitiesMap s)),
             (''exported_at'', JStr (toISOString (clock w)))]
      in FileExportManager_exportToFile filePath sessionData w)"

text \<open>
  The key of an imported document, from its \<open>auth_key\<close> when that counts as
  true: a new \<open>AuthKey\<close> is stored first, then \<open>Buffer.from(..., 'hex')\<close>
  decodes a string and throws a \<open>TypeError\<close> on a number, on \<open>true\<close> and on
  an object. (It also takes an array and an object with a \<open>length\<close>, which the
  model refuses like any other object.)
\<close>

definition import_authKey_001 :: "json \<Rightarrow> SqliteSession \<Rightarrow> error option \<times> SqliteSession" where
  "import_authKey_001 data s =
     (if truthy (get_prop data ''auth_key'') then
        (case get_prop data ''auth_key'' of
           Some (JStr h) \<Rightarrow>
             (None, s\<lparr>authKey := Some (setKey (Buffer_from_hex h) new_AuthKey)\<rparr>)
         | _ \<Rightarrow> (Some TypeError, s\<lparr>authKey := Some new_AuthKey\<rparr>))
      else (None, s))"

definition importFromFile_001 ::
  "string \<Rightarrow> SqliteSession \<Rightarrow> world \<Rightarrow> (error + unit) \<times> SqliteSession \<times> world" where
  "importFromFile_001 filePath s w =
     (case FileExportManager_importFromFile filePath w of
        Inl e \<Rightarrow> (Inl e, s, w)
      | Inr data \<Rightarrow>
          (case import_authKey_001 data s of
             (Some e, s1) \<Rightarrow> (Inl e, s1, w)
           | (None, s1) \<Rightarrow>
               (let s2 = s1\<lparr>dcId := as_number (get_prop data ''dc_id''),
                            serverAddress := as_string (get_prop data ''server_address''),
                            port := as_number (get_prop data ''port'')\<rparr>;
                    s3 = clearEntities s2
                in (case (case get_prop data ''entities'' of
                            None \<Rightarrow> None
                          | Some v \<Rightarrow> Object_entries v) of
                      None \<Rightarrow> (Inl TypeError, s3, w)
                    | Some ps \<Rightarrow>
                        (let (s4, w4) = set_entries_001 ps s3 w;
                             (n, s5, w5) = save_001 s4 w4
                         in (Inr (), s5, w5))))))"

definition delete_001 :: "SqliteSession \<Rightarrow> world \<Rightarrow> SqliteSession \<times> world" where
  "delete_001 s w = (s\<lparr>isLoaded := False\<rparr>, deleteSession (databasePath s) (sessionName s) w)"

definition close_001 :: "SqliteSession \<Rightarrow> SqliteSession" where
  "close_001 s = (case db s of Some d \<Rightarrow> s\<lparr>db := None\<rparr> | None \<Rightarrow> s)"

definition getSessionInfo_001 :: "SqliteSession \<Rightarrow> SessionInfo" where
  "getSessionInfo_001 s =
     \<lparr>info_name = sessionName s,
      info_dcId = Num (or_else (truthy_number (dcId s)) 0),
      hasAuth = (authKey s \<noteq> None),
      entitiesCount = length (entitiesMap s)\<rparr>"

text \<open>
  The static members. \<open>listSessions\<close> is the function
  \<open>DatabaseManager.listSessions\<close> itself, which calls \<open>this.createDatabase\<close>:
  called as a member of \<open>SqliteSession\<close>, \<open>this\<close> is that class, which has
  no \<open>createDatabase\<close>, and the call throws. The other three are functions of
  \<open>SessionManager\<close> that do not use \<open>this\<close>.
\<close>

definition SqliteSession_listSessions_001 ::
  "string \<Rightarrow> world \<Rightarrow> (error + session_entry list) \<times> world" where
  "SqliteSession_listSessions_001 path w = (Inl TypeError, w)"

definition SqliteSession_deleteSession_001 :: "string \<Rightarrow> string \<Rightarrow> world \<Rightarrow> world" where
  "SqliteSession_deleteSession_001 = deleteSession"

definition SqliteSession_sessionExists_001 :: "string \<Rightarrow> string \<Rightarrow> world \<Rightarrow> bool \<times> world" where
  "SqliteSession_sessionExists_001 = sessionExists"

definition SqliteSession_getSessionInfo_001 ::
  "string \<Rightarrow> string \<Rightarrow> world \<Rightarrow> session_exists_info \<times> world" where
  "SqliteSession_getSessionInfo_001 = SessionManager_getSessionInfo"


section \<open>Values as the engine holds them\<close>





definition number_end :: "string \<Rightarrow> bool" where
  "number_end rest =
     (case rest of [] \<Rightarrow> True
      | d # _ \<Rightarrow> \<not> is_digit 10 d \<and> d \<noteq> CHR ''.'' \<and> d \<noteq> CHR ''e'' \<and> d \<noteq> CHR ''E'')"






section \<open>The handle of a controller\<close>

text \<open>
  The handle of a controller is closed, or open on the controller's own path: \<open>init\<close>
  is the only place that opens it.
\<close>

definition handle_ok :: "SqliteSession \<Rightarrow> bool" where
  "handle_ok s = (db s = None \<or> db s = Some (databasePath s))"

section \<open>Saving, then loading in a new controller\<close>

text \<open>
  \<open>save()\<close> on a controller, then \<open>load()\<close> on a controller constructed with
  the same path and the same session name: the controller that the second one becomes.
\<close>

definition fresh_load_after_save :: "SqliteSession \<Rightarrow> world \<Rightarrow> SqliteSession" where
  "fresh_load_after_save s w =
     fst (load (new_SqliteSession (databasePath s) (Some (sessionName s))) (snd (snd (save s w))))"

section \<open>Example inputs\<close>

definition store_path :: string where
  "store_path = ''sessions.db''"

definition empty_world :: world where
  "empty_world = \<lparr>dbs = Map.empty, files = Map.empty, clock = 1000, next_ref = 0\<rparr>"

definition world_of_rows :: "row list \<Rightarrow> world" where
  "world_of_rows rs =
     empty_world\<lparr>dbs := [store_path \<mapsto> \<lparr>rows = rs, seq = length rs\<rparr>], clock := 9000\<rparr>"

text \<open>A row with nothing but its name and its two times.\<close>

definition session_row :: "nat \<Rightarrow> string \<Rightarrow> int \<Rightarrow> int \<Rightarrow> row" where
  "session_row i n c u =
     \<lparr>row_id = i, name = n, auth_key = None, dc_id = None, server_address = None,
      row_port = None, entities = None, created_at = c, updated_at = u\<rparr>"

text \<open>
  The controller of the session \<open>main\<close>, and a row of that session with a key of
  two bytes and the given \<open>dc_id\<close>, \<open>server_address\<close>, \<open>port\<close> and
  \<open>entities\<close>.
\<close>

definition main_session :: SqliteSession where
  "main_session = new_SqliteSession store_path (Some ''main'')"

definition dc_row :: "int option \<Rightarrow> string option \<Rightarrow> int option \<Rightarrow> string option \<Rightarrow> row" where
  "dc_row d a p ents =
     \<lparr>row_id = 1, name = ''main'', auth_key = Some [1, 2], dc_id = d, server_address = a,
      row_port = p, entities = ents, created_at = 1, updated_at = 1\<rparr>"

text \<open>Controllers with a data center whose fields count as false.\<close>

definition zero_session :: SqliteSession where
  "zero_session =
     main_session\<lparr>dcId := Some (Num 0), serverAddress := Some [], port := Some (Num 0)\<rparr>"

definition empty_address_session :: SqliteSession where
  "empty_address_session =
     main_session\<lparr>dcId := Some (Num 5), serverAddress := Some [], port := Some (Num 443)\<rparr>"

text \<open>A world with one session file of the given text.\<close>

definition world_of_file :: "string \<Rightarrow> world" where
  "world_of_file text = empty_world\<lparr>files := [''backup.session'' \<mapsto> text]\<rparr>"

text \<open>A new controller saved at second 1, and saved again at second 5.\<close>

definition saved_once :: "SqliteSession \<times> world" where
  "saved_once = snd (save (new_SqliteSession store_path None) empty_world)"

definition saved_twice :: "SqliteSession \<times> world" where
  "saved_twice = snd (save (fst saved_once) ((snd saved_once)\<lparr>clock := 5000\<rparr>))"

definition user_x :: json where
  "user_x = JObj [(''name'', JStr ''x'')]"


section \<open>The entity cache\<close>








section \<open>Listing the sessions\<close>

lemma sort_key_three:
  fixes f :: "'a \<Rightarrow> 'b::linorder"
  assumes "mset xs = {#a, b, c#}" and "f a < f b" and "f b < f c"
  shows "sort_key f xs = [a, b, c]"
proof (rule properties_for_sort_key)
  show "mset [a, b, c] = mset xs" using assms(1) by simp
  show "sorted (map f [a, b, c])" using assms(2,3) by auto
  fix k assume k: "k \<in> set [a, b, c]"
  have ne: "f a \<noteq> f b" "f b \<noteq> f a" "f a \<noteq> f c" "f c \<noteq> f a" "f b \<noteq> f c" "f c \<noteq> f b"
    using assms(2,3) by auto
  have "mset (filter (\<lambda>x. f k = f x) xs) = filter_mset (\<lambda>x. f k = f x) {#a, b, c#}"
    using assms(1) by (metis mset_filter)
  also have "\<dots> = mset (filter (\<lambda>x. f k = f x) [a, b, c])"
    by simp
  finally have "filter (\<lambda>x. f k = f x) xs = [k]"
    using k ne by (auto simp del: mset_filter)
  with k ne
  show "filter (\<lambda>x. f k = f x) [a, b, c] = filter (\<lambda>x. f k = f x) xs"
    by auto
qed

text \<open>
  C8. A store file holds three sessions, created at the times \<open>t1 < t2 < t3\<close>, in
  any order of rows. \<open>listSessions\<close> returns three records, each the
  \<open>name\<close>, the \<open>created_at\<close> and the \<open>updated_at\<close> of a
  session, newest first: the session created at \<open>t3\<close>, then the one created at
  \<open>t2\<close>, then the one created at \<open>t1\<close>.
\<close>

theorem listSessions_newest_first:
  assumes "dbs w p = Some t"
      and "mset (rows t) = {#r1, r2, r3#}"
      and "created_at r1 < created_at r2" and "created_at r2 < created_at r3"
  shows "fst (listSessions p w) =
     [\<lparr>e_name = name r3, e_created_at = created_at r3, e_updated_at = updated_at r3\<rparr>,
      \<lparr>e_name = name r2, e_created_at = created_at r2, e_updated_at = updated_at r2\<rparr>,
      \<lparr>e_name = name r1, e_created_at = created_at r1, e_updated_at = updated_at r1\<rparr>]"
  using assms sort_key_three[of "rows t" r3 r2 r1 "\<lambda>r. - created_at r"]
  by (simp add: listSessions_def createDatabase_def ensureTable_def the_table_def
      order_by_created_at_desc_def select_entry_def add_mset_commute)

theorem listSessions_newest_first_witness:
  "fst (listSessions store_path
      (world_of_rows [session_row 1 ''b'' 20 25, session_row 2 ''c'' 30 31,
                      session_row 3 ''a'' 10 40]))
   = [\<lparr>e_name = ''c'', e_created_at = 30, e_updated_at = 31\<rparr>,
      \<lparr>e_name = ''b'', e_created_at = 20, e_updated_at = 25\<rparr>,
      \<lparr>e_name = ''a'', e_created_at = 10, e_updated_at = 40\<rparr>]"
  using listSessions_newest_first [of
      "world_of_rows [session_row 1 ''b'' 20 25, session_row 2 ''c'' 30 31,
                      session_row 3 ''a'' 10 40]"
      store_path
      "\<lparr>rows = [session_row 1 ''b'' 20 25, session_row 2 ''c'' 30 31,
                session_row 3 ''a'' 10 40], seq = 3\<rparr>"
      "session_row 3 ''a'' 10 40" "session_row 1 ''b'' 20 25" "session_row 2 ''c'' 30 31"]
  by (simp add: world_of_rows_def empty_world_def session_row_def)

section \<open>Saving a row\<close>

lemma find_name_replaced:
  "name r = n \<Longrightarrow>
   find (\<lambda>r. name r = n) (filter (\<lambda>r'. name r' \<noteq> n) xs @ [r]) = Some r"
  by (induction xs) auto

text \<open>
  The row that \<open>loadSessionData\<close> finds after \<open>saveSessionData\<close>: the fields
  that were passed, and both timestamps at the time of the statement.
\<close>

lemma loadSessionData_saveSessionData:
  "loadSessionData d n (saveSessionData d n f w) =
     Some \<lparr>row_id = next_rowid (the_table d w), name = n, auth_key = f_authKey f,
           dc_id = f_dcId f, server_address = f_serverAddress f, row_port = f_port f,
           entities = f_entities f, created_at = CURRENT_TIMESTAMP w,
           updated_at = CURRENT_TIMESTAMP w\<rparr>"
  by (simp add: find_name_replaced loadSessionData_def saveSessionData_def the_table_def
      insert_or_replace_def Let_def)

text \<open>
  C1. A new controller is saved at second 1 and again at second 5. The claim has the
  \<open>created_at\<close> of its row still at 1 after the second save; the code leaves it
  at 5, with \<open>updated_at\<close>: \<open>INSERT OR REPLACE\<close> deletes the row and inserts
  a new one, whose \<open>created_at\<close> takes its default again.
\<close>

theorem save_twice_created_at:
  "map created_at (rows (the_table store_path (snd saved_once))) = [1]
   \<and> map created_at (rows (the_table store_path (snd saved_twice))) = [5]
   \<and> map updated_at (rows (the_table store_path (snd saved_twice))) = [5]"
  by (simp add: saved_once_def saved_twice_def save_def init_def new_SqliteSession_def
      empty_world_def store_path_def createDatabase_def ensureTable_def the_table_def
      saveSessionData_def insert_or_replace_def next_rowid_def CURRENT_TIMESTAMP_def
      or_else_def entitiesMap_def truthy_number_def truthy_string_def Let_def)

section \<open>Loading\<close>

lemma the_table_ensureTable: "the_table d (ensureTable d' w) = the_table d w"
  by (auto simp: the_table_def ensureTable_def split: option.splits)

lemma loadSessionData_ensureTable:
  "loadSessionData d n (ensureTable d' w) = loadSessionData d n w"
  by (simp add: loadSessionData_def the_table_ensureTable)

lemma init_handle_ok:
  "handle_ok s \<Longrightarrow>
   init s w = (databasePath s, s\<lparr>db := Some (databasePath s)\<rparr>,
               if db s = None then ensureTable (databasePath s) w else w)"
  by (auto simp: init_def handle_ok_def createDatabase_def Let_def)

lemma saveToDB_unloaded: "\<not> isLoaded s \<Longrightarrow> saveToDB s w = (s, w)"
  by (simp add: saveToDB_def)

lemma set_entries_unloaded:
  "\<not> isLoaded s \<Longrightarrow>
   set_entries ps s w =
     (s\<lparr>customEntities := customEntities (fst (set_entries ps s w))\<rparr>,
      w\<lparr>next_ref := next_ref w + length ps\<rparr>)"
proof (induction ps arbitrary: s w)
  case Nil
  then show ?case by simp
next
  case (Cons p ps)
  let ?s1 = "setEntity (parseInt (fst p)) \<lparr>ref = next_ref w, shape = snd p\<rparr> s"
  let ?w1 = "w\<lparr>next_ref := Suc (next_ref w)\<rparr>"
  have step: "set_entries (p # ps) s w = set_entries ps ?s1 ?w1"
    using Cons.prems
    by (simp add: new_object_def SqliteSession_setEntity_def saveToDB_def setEntity_def)
  have "\<not> isLoaded ?s1" using Cons.prems by (simp add: setEntity_def)
  from Cons.IH[OF this, of ?w1] show ?case
    unfolding step by (simp add: setEntity_def)
qed

lemma set_entries_fields:
  assumes "\<not> isLoaded s"
  shows "isLoaded (fst (set_entries ps s w)) = isLoaded s"
    and "authKey (fst (set_entries ps s w)) = authKey s"
    and "dcId (fst (set_entries ps s w)) = dcId s"
    and "serverAddress (fst (set_entries ps s w)) = serverAddress s"
    and "port (fst (set_entries ps s w)) = port s"
    and "db (fst (set_entries ps s w)) = db s"
    and "dbs (snd (set_entries ps s w)) = dbs w"
    and "files (snd (set_entries ps s w)) = files w"
  by (subst set_entries_unloaded[OF assms], simp)+

text \<open>What \<open>load\<close> leaves in the controller, in terms of the row it found.\<close>

lemma load_found:
  assumes "\<not> isLoaded s" and "handle_ok s"
      and "loadSessionData (databasePath s) (sessionName s) w = Some r"
  shows "isLoaded (fst (load s w))"
    and "dcId (fst (load s w)) =
           (if truthy_int (dc_id r) \<noteq> None then map_option Num (dc_id r) else dcId s)"
    and "serverAddress (fst (load s w)) =
           (if truthy_int (dc_id r) \<noteq> None
            then Some (or_else (truthy_string (server_address r)) []) else serverAddress s)"
    and "port (fst (load s w)) =
           (if truthy_int (dc_id r) \<noteq> None
            then Some (Num (or_else (truthy_int (row_port r)) 443)) else port s)"
    and "authKey (fst (load s w)) =
           (case auth_key r of None \<Rightarrow> authKey s
            | Some b \<Rightarrow> if length b > 0 then Some (setKey b new_AuthKey) else authKey s)"
    and "dbs (snd (load s w)) = dbs (if db s = None then ensureTable (databasePath s) w else w)"
  using assms
  by (simp_all add: load_def init_handle_ok loadSessionData_ensureTable set_entries_fields
      Let_def split_beta split: option.splits)

text \<open>
  C3, as the code has it. The first \<open>load\<close> of a controller finds a row. When
  the row's \<open>dc_id\<close> is neither \<open>NULL\<close> nor \<open>0\<close>, \<open>dcId\<close> is
  that number, \<open>serverAddress\<close> is the row's address, or the empty string when
  the column is \<open>NULL\<close>, and \<open>port\<close> is the row's port, or \<open>443\<close>
  when the column is \<open>NULL\<close> or \<open>0\<close>. When the row's \<open>dc_id\<close> is
  \<open>NULL\<close> or \<open>0\<close>, the three fields stay as they were, which is empty in a
  controller just constructed.
\<close>

theorem load_data_center_fields:
  assumes "\<not> isLoaded s" and "handle_ok s"
      and "loadSessionData (databasePath s) (sessionName s) w = Some r"
  shows "(\<forall>d. dc_id r = Some d \<and> d \<noteq> 0 \<longrightarrow>
            dcId (fst (load s w)) = Some (Num d)
          \<and> serverAddress (fst (load s w))
              = Some (case server_address r of None \<Rightarrow> [] | Some a \<Rightarrow> a)
          \<and> port (fst (load s w))
              = Some (Num (case row_port r of None \<Rightarrow> 443
                           | Some p \<Rightarrow> if p = 0 then 443 else p)))
       \<and> (dc_id r = None \<or> dc_id r = Some 0 \<longrightarrow>
            dcId (fst (load s w)) = dcId s
          \<and> serverAddress (fst (load s w)) = serverAddress s
          \<and> port (fst (load s w)) = port s)"
  using load_found(2,3,4)[OF assms]
  by (auto simp: truthy_int_def truthy_string_def or_else_def split: option.splits)

theorem load_data_center_fields_witness:
  "dcId (fst (load main_session (world_of_rows [dc_row (Some 2) None None None]))) = Some (Num 2)
   \<and> serverAddress (fst (load main_session (world_of_rows [dc_row (Some 2) None None None]))) = Some []
   \<and> port (fst (load main_session (world_of_rows [dc_row (Some 2) None None None]))) = Some (Num 443)
   \<and> dcId (fst (load main_session (world_of_rows [dc_row None (Some ''a'') (Some 80) None]))) = None
   \<and> serverAddress (fst (load main_session (world_of_rows [dc_row None (Some ''a'') (Some 80) None]))) = None
   \<and> port (fst (load main_session (world_of_rows [dc_row None (Some ''a'') (Some 80) None]))) = None"
  using load_data_center_fields [of main_session "world_of_rows [dc_row (Some 2) None None None]"
      "dc_row (Some 2) None None None"]
    load_data_center_fields [of main_session "world_of_rows [dc_row None (Some ''a'') (Some 80) None]"
      "dc_row None (Some ''a'') (Some 80) None"]
  by (simp add: main_session_def new_SqliteSession_def handle_ok_def or_else_def
      world_of_rows_def empty_world_def store_path_def dc_row_def loadSessionData_def
      the_table_def)

text \<open>
  The claim C3 as it is stated covers every row whose \<open>dc_id\<close> is not
  \<open>NULL\<close>. A row with \<open>dc_id = 0\<close> is such a row, and \<open>load\<close> does
  not take its \<open>dc_id\<close>: the test \<open>if (row.dc_id)\<close> is false for \<open>0\<close>.
\<close>

theorem load_zero_dc_counterexample:
  "dc_id (dc_row (Some 0) (Some ''a'') (Some 80) None) \<noteq> None
   \<and> dcId (fst (load main_session (world_of_rows [dc_row (Some 0) (Some ''a'') (Some 80) None])))
       \<noteq> map_option Num (dc_id (dc_row (Some 0) (Some ''a'') (Some 80) None))"
  by (simp add: main_session_def new_SqliteSession_def or_else_def load_def init_def
      createDatabase_def ensureTable_def truthy_int_def truthy_string_def
      world_of_rows_def empty_world_def store_path_def dc_row_def loadSessionData_def
      the_table_def setKey_def new_AuthKey_def Let_def)

text \<open>
  C6, as the code has it. The row that the first \<open>load\<close> of a controller finds has an
  \<open>entities\<close> column that is not a JSON text. Then \<open>load\<close> returns and the controller
  is loaded; its entity map is what it was before the call, which is empty unless an
  entity was set before; the key, \<open>dcId\<close>, \<open>serverAddress\<close> and \<open>port\<close> are taken
  from the row as from any other row; and the world is as it was, but for the table that
  \<open>init\<close> creates where there is none.
\<close>

theorem load_malformed_entities:
  assumes "\<not> isLoaded s" and "handle_ok s"
      and "loadSessionData (databasePath s) (sessionName s) w = Some r"
      and "entities r = Some text" and "JSON_parse text = None"
  shows "fst (load s w) =
           s\<lparr>db := Some (databasePath s),
             isLoaded := True,
             authKey := (case auth_key r of None \<Rightarrow> authKey s
                         | Some b \<Rightarrow> if b = [] then authKey s else Some (AuthKey (Some b))),
             dcId := (case dc_id r of None \<Rightarrow> dcId s
                      | Some d \<Rightarrow> if d = 0 then dcId s else Some (Num d)),
             serverAddress :=
               (case dc_id r of None \<Rightarrow> serverAddress s
                | Some d \<Rightarrow> if d = 0 then serverAddress s
                            else Some (case server_address r of None \<Rightarrow> [] | Some a \<Rightarrow> a)),
             port :=
               (case dc_id r of None \<Rightarrow> port s
                | Some d \<Rightarrow> if d = 0 then port s
                            else Some (Num (case row_port r of None \<Rightarrow> 443
                                            | Some p \<Rightarrow> if p = 0 then 443 else p)))\<rparr>
       \<and> customEntities (fst (load s w)) = customEntities s
       \<and> snd (load s w) = (if db s = None then ensureTable (databasePath s) w else w)"
  using assms
  by (simp add: load_def init_handle_ok loadSessionData_ensureTable Let_def split_beta
      truthy_string_def truthy_int_def or_else_def setKey_def new_AuthKey_def
      split: option.splits)

theorem load_malformed_entities_witness:
  "JSON_parse ''{not json'' = None
   \<and> fst (load main_session
         (world_of_rows [dc_row (Some 2) (Some ''a'') None (Some ''{not json'')]))
     = main_session\<lparr>db := Some store_path, isLoaded := True,
                    authKey := Some (AuthKey (Some [1, 2])), dcId := Some (Num 2),
                    serverAddress := Some ''a'', port := Some (Num 443)\<rparr>
   \<and> customEntities (fst (load main_session
         (world_of_rows [dc_row (Some 2) (Some ''a'') None (Some ''{not json'')]))) = []
   \<and> snd (load main_session
         (world_of_rows [dc_row (Some 2) (Some ''a'') None (Some ''{not json'')]))
     = world_of_rows [dc_row (Some 2) (Some ''a'') None (Some ''{not json'')]"
proof -
  have p: "JSON_parse ''{not json'' = None"
    by code_simp
  show ?thesis
    using p load_malformed_entities [of main_session
        "world_of_rows [dc_row (Some 2) (Some ''a'') None (Some ''{not json'')]"
        "dc_row (Some 2) (Some ''a'') None (Some ''{not json'')" "''{not json''"]
    by (simp add: main_session_def new_SqliteSession_def handle_ok_def or_else_def
        world_of_rows_def empty_world_def store_path_def dc_row_def loadSessionData_def
        the_table_def ensureTable_def)
qed

text \<open>
  The claim C6 as it is stated has the entity map empty after every such \<open>load\<close>.
  An entity that was set before the first \<open>load\<close> is held in memory, and \<open>load\<close> on
  a row whose \<open>entities\<close> are not a JSON text leaves it there.
\<close>

theorem load_malformed_entities_counterexample:
  "JSON_parse ''{not json'' = None
   \<and> \<not> isLoaded (fst (SqliteSession_setEntity (Num 1) \<lparr>ref = 0, shape = user_x\<rparr> main_session
         (world_of_rows [dc_row (Some 2) (Some ''a'') None (Some ''{not json'')])))
   \<and> customEntities (fst (load
         (fst (SqliteSession_setEntity (Num 1) \<lparr>ref = 0, shape = user_x\<rparr> main_session
            (world_of_rows [dc_row (Some 2) (Some ''a'') None (Some ''{not json'')])))
         (world_of_rows [dc_row (Some 2) (Some ''a'') None (Some ''{not json'')])))
     = [(Num 1, \<lparr>ref = 0, shape = user_x\<rparr>)]"
proof -
  have p: "JSON_parse ''{not json'' = None"
    by code_simp
  show ?thesis
    using p
    by (simp add: main_session_def new_SqliteSession_def or_else_def load_def init_def
        createDatabase_def ensureTable_def truthy_int_def truthy_string_def
        world_of_rows_def empty_world_def store_path_def dc_row_def loadSessionData_def
        the_table_def setKey_def new_AuthKey_def SqliteSession_setEntity_def saveToDB_def
        setEntity_def Let_def)
qed

section \<open>Mutators\<close>

lemma save_writes_row:
  assumes "handle_ok s"
  shows "loadSessionData (databasePath s) (sessionName s) (snd (snd (save s w))) =
     Some \<lparr>row_id = next_rowid (the_table (databasePath s) w), name = sessionName s,
           auth_key = (case authKey s of None \<Rightarrow> None | Some a \<Rightarrow> getKey a),
           dc_id = truthy_number (dcId s),
           server_address = truthy_string (serverAddress s),
           row_port = truthy_number (port s),
           entities = (if customEntities s = [] then None
                       else Some (JSON_stringify (Object_fromEntries (customEntities s)))),
           created_at = CURRENT_TIMESTAMP w, updated_at = CURRENT_TIMESTAMP w\<rparr>"
  using assms
  by (simp add: save_def init_handle_ok loadSessionData_saveSessionData entitiesMap_def
      the_table_def Let_def CURRENT_TIMESTAMP_def ensureTable_def split: option.splits)

lemma update_not_Nil: "AList.update i e m \<noteq> []"
  by (cases m) auto

text \<open>
  C4. In a controller that is not loaded, \<open>setDC\<close>, the setter of
  \<open>authKey\<close> and \<open>setEntity\<close> change the controller only and leave the world
  as it is. In a loaded controller each of them is the change followed by \<open>save\<close>,
  and the row of the session then holds the new value, written at that moment.
\<close>

theorem mutators_write_through:
  "(\<not> isLoaded s \<longrightarrow>
      setDC dc a p s w = (s\<lparr>dcId := Some dc, serverAddress := Some a, port := Some p\<rparr>, w)
    \<and> set_authKey k s w = (s\<lparr>authKey := k\<rparr>, w)
    \<and> SqliteSession_setEntity i e s w = (setEntity i e s, w))
   \<and> (isLoaded s \<longrightarrow>
      setDC dc a p s w
        = snd (save (s\<lparr>dcId := Some dc, serverAddress := Some a, port := Some p\<rparr>) w)
    \<and> set_authKey k s w = snd (save (s\<lparr>authKey := k\<rparr>) w)
    \<and> SqliteSession_setEntity i e s w = snd (save (setEntity i e s) w))
   \<and> (isLoaded s \<and> handle_ok s \<longrightarrow>
      (\<exists>r. loadSessionData (databasePath s) (sessionName s) (snd (setDC dc a p s w)) = Some r
          \<and> dc_id r = truthy_number (Some dc) \<and> server_address r = truthy_string (Some a)
          \<and> row_port r = truthy_number (Some p) \<and> updated_at r = CURRENT_TIMESTAMP w)
    \<and> (\<exists>r. loadSessionData (databasePath s) (sessionName s) (snd (set_authKey k s w)) = Some r
          \<and> auth_key r = (case k of None \<Rightarrow> None | Some x \<Rightarrow> getKey x)
          \<and> updated_at r = CURRENT_TIMESTAMP w)
    \<and> (\<exists>r. loadSessionData (databasePath s) (sessionName s)
               (snd (SqliteSession_setEntity i e s w)) = Some r
          \<and> entities r = Some (JSON_stringify
                (Object_fromEntries (AList.update i e (customEntities s))))
          \<and> updated_at r = CURRENT_TIMESTAMP w))"
proof -
  have eqs: "isLoaded s \<Longrightarrow> setDC dc a p s w
        = snd (save (s\<lparr>dcId := Some dc, serverAddress := Some a, port := Some p\<rparr>) w)"
    "isLoaded s \<Longrightarrow> set_authKey k s w = snd (save (s\<lparr>authKey := k\<rparr>) w)"
    "isLoaded s \<Longrightarrow> SqliteSession_setEntity i e s w = snd (save (setEntity i e s) w)"
    by (simp_all add: setDC_def set_authKey_def SqliteSession_setEntity_def saveToDB_def
        setEntity_def split_beta)
  have un: "\<not> isLoaded s \<Longrightarrow>
      setDC dc a p s w = (s\<lparr>dcId := Some dc, serverAddress := Some a, port := Some p\<rparr>, w)
    \<and> set_authKey k s w = (s\<lparr>authKey := k\<rparr>, w)
    \<and> SqliteSession_setEntity i e s w = (setEntity i e s, w)"
    by (simp add: setDC_def set_authKey_def SqliteSession_setEntity_def saveToDB_def
        setEntity_def)
  have r1: "handle_ok s \<Longrightarrow>
      \<exists>r. loadSessionData (databasePath s) (sessionName s)
             (snd (snd (save (s\<lparr>dcId := Some dc, serverAddress := Some a, port := Some p\<rparr>) w)))
           = Some r
          \<and> dc_id r = truthy_number (Some dc) \<and> server_address r = truthy_string (Some a)
          \<and> row_port r = truthy_number (Some p) \<and> updated_at r = CURRENT_TIMESTAMP w"
    using save_writes_row [of "s\<lparr>dcId := Some dc, serverAddress := Some a, port := Some p\<rparr>" w]
    by (simp add: handle_ok_def)
  have r2: "handle_ok s \<Longrightarrow>
      \<exists>r. loadSessionData (databasePath s) (sessionName s)
             (snd (snd (save (s\<lparr>authKey := k\<rparr>) w))) = Some r
          \<and> auth_key r = (case k of None \<Rightarrow> None | Some x \<Rightarrow> getKey x)
          \<and> updated_at r = CURRENT_TIMESTAMP w"
    using save_writes_row [of "s\<lparr>authKey := k\<rparr>" w]
    by (simp add: handle_ok_def)
  have r3: "handle_ok s \<Longrightarrow>
      \<exists>r. loadSessionData (databasePath s) (sessionName s)
             (snd (snd (save (setEntity i e s) w))) = Some r
          \<and> entities r = Some (JSON_stringify
                (Object_fromEntries (AList.update i e (customEntities s))))
          \<and> updated_at r = CURRENT_TIMESTAMP w"
    using save_writes_row [of "setEntity i e s" w]
    by (simp add: handle_ok_def setEntity_def update_not_Nil)
  show ?thesis
    using eqs un r1 r2 r3 by simp
qed

theorem mutators_write_through_witness:
  "snd (setDC (Num 2) ''a'' (Num 443) main_session empty_world) = empty_world
   \<and> dcId (fst (setDC (Num 2) ''a'' (Num 443) main_session empty_world)) = Some (Num 2)
   \<and> map dc_id (rows (the_table store_path
        (snd (setDC (Num 2) ''a'' (Num 443) (main_session\<lparr>isLoaded := True\<rparr>) empty_world))))
      = [Some 2]"
  using mutators_write_through [of main_session "Num 2" "''a''" "Num 443" empty_world]
    mutators_write_through [of "main_session\<lparr>isLoaded := True\<rparr>" "Num 2" "''a''" "Num 443"
      empty_world]
  by (simp add: main_session_def new_SqliteSession_def or_else_def empty_world_def
      store_path_def save_def init_def createDatabase_def ensureTable_def the_table_def
      saveSessionData_def insert_or_replace_def truthy_number_def truthy_string_def
      entitiesMap_def handle_ok_def Let_def)

section \<open>Importing a file\<close>

text \<open>
  An import that fails in \<open>FileExportManager.importFromFile\<close> leaves the controller
  and the world as they were; a document that is not \<open>null\<close> and has no number
  under \<open>dc_id\<close> fails there with \<open>FormatError\<close>.
\<close>

lemma importFromFile_error:
  "FileExportManager_importFromFile filePath w = Inl e \<Longrightarrow>
   importFromFile filePath s w = (Inl e, s, w)"
  by (simp add: importFromFile_def)

lemma importFromFile_not_null_no_dc_id:
  assumes "files w filePath = Some text" and "JSON_parse text = Some data"
      and "data \<noteq> JNull" and "\<not> is_number (get_prop data ''dc_id'')"
  shows "importFromFile filePath s w = (Inl FormatError, s, w)"
  using assms by (simp add: importFromFile_def FileExportManager_importFromFile_def)

text \<open>
  C5. The file holds the text \<open>null\<close>. Its document has no numeric \<open>dc_id\<close>,
  and the claim has \<open>importFromFile\<close> raise a \<open>FormatError\<close>. The code reads
  \<open>data.dc_id\<close> of \<open>null\<close> in its test, which throws a \<open>TypeError\<close>
  before the test is made; the controller and the world are as they were.
\<close>

theorem importFromFile_null_document:
  "JSON_parse ''null'' = Some JNull
   \<and> \<not> is_number (get_prop JNull ''dc_id'')
   \<and> importFromFile ''backup.session'' main_session (world_of_file ''null'')
       = (Inl TypeError, main_session, world_of_file ''null'')"
proof -
  have p: "JSON_parse ''null'' = Some JNull"
    by code_simp
  show ?thesis
    using p
    by (simp add: importFromFile_def FileExportManager_importFromFile_def world_of_file_def
        is_number_def)
qed

section \<open>Values that count as false\<close>

lemma load_cache_no_entities:
  assumes "\<not> isLoaded s" and "handle_ok s"
      and "loadSessionData (databasePath s) (sessionName s) w = Some r"
      and "entities r = None"
  shows "customEntities (fst (load s w)) = customEntities s"
  using assms
  by (simp add: load_def init_handle_ok loadSessionData_ensureTable
      Let_def split_beta truthy_string_def split: option.splits)

lemma new_SqliteSession_simps:
  "\<not> isLoaded (new_SqliteSession p n)" "handle_ok (new_SqliteSession p n)"
  "databasePath (new_SqliteSession p n) = p"
  "sessionName (new_SqliteSession p (Some m)) = m"
  "dcId (new_SqliteSession p n) = None" "port (new_SqliteSession p n) = None"
  "serverAddress (new_SqliteSession p n) = None" "authKey (new_SqliteSession p n) = None"
  "customEntities (new_SqliteSession p n) = []"
  by (simp_all add: new_SqliteSession_def handle_ok_def or_else_def)

lemmas eval_defs = main_session_def new_SqliteSession_def or_else_def empty_world_def
      store_path_def save_def init_def createDatabase_def ensureTable_def the_table_def
      saveSessionData_def insert_or_replace_def truthy_number_def truthy_string_def
      truthy_int_def entitiesMap_def handle_ok_def load_def loadSessionData_def
      next_rowid_def CURRENT_TIMESTAMP_def fresh_load_after_save_def Let_def

text \<open>
  C7, as the code has it. \<open>save\<close> writes \<open>NULL\<close> for an empty entity map,
  for a \<open>dcId\<close> of \<open>0\<close>, for a \<open>port\<close> of \<open>0\<close> and for an empty
  \<open>serverAddress\<close>. After \<open>load\<close> in a new controller, a \<open>dcId\<close> of
  \<open>0\<close> is absent; a \<open>port\<close> of \<open>0\<close> is \<open>443\<close> when \<open>dcId\<close>
  counts as true (it is set, and is neither \<open>0\<close> nor \<open>NaN\<close>) and absent
  otherwise; an empty \<open>serverAddress\<close> is the empty string again when
  \<open>dcId\<close> counts as true and absent otherwise; an empty entity map is empty again.
\<close>

theorem save_falsy_as_null:
  assumes "handle_ok s"
  shows "(\<exists>r. loadSessionData (databasePath s) (sessionName s) (snd (snd (save s w))) = Some r
           \<and> (customEntities s = [] \<longrightarrow> entities r = None)
           \<and> (dcId s = Some (Num 0) \<longrightarrow> dc_id r = None)
           \<and> (port s = Some (Num 0) \<longrightarrow> row_port r = None)
           \<and> (serverAddress s = Some [] \<longrightarrow> server_address r = None))
       \<and> (dcId s = Some (Num 0) \<longrightarrow> dcId (fresh_load_after_save s w) = None)
       \<and> (port s = Some (Num 0) \<longrightarrow>
            port (fresh_load_after_save s w)
              = (if truthy_number (dcId s) = None then None else Some (Num 443)))
       \<and> (serverAddress s = Some [] \<longrightarrow>
            serverAddress (fresh_load_after_save s w)
              = (if truthy_number (dcId s) = None then None else Some []))
       \<and> (customEntities s = [] \<longrightarrow> customEntities (fresh_load_after_save s w) = [])"
proof -
  let ?n = "new_SqliteSession (databasePath s) (Some (sessionName s))"
  let ?w = "snd (snd (save s w))"
  define r where "r = \<lparr>row_id = next_rowid (the_table (databasePath s) w), name = sessionName s,
           auth_key = (case authKey s of None \<Rightarrow> None | Some a \<Rightarrow> getKey a),
           dc_id = truthy_number (dcId s),
           server_address = truthy_string (serverAddress s),
           row_port = truthy_number (port s),
           entities = (if customEntities s = [] then None
                       else Some (JSON_stringify (Object_fromEntries (customEntities s)))),
           created_at = CURRENT_TIMESTAMP w, updated_at = CURRENT_TIMESTAMP w\<rparr>"
  have saved: "loadSessionData (databasePath s) (sessionName s) ?w = Some r"
    using save_writes_row[OF assms(1), of w] by (simp add: r_def)
  then have found: "loadSessionData (databasePath ?n) (sessionName ?n) ?w = Some r"
    by (simp add: new_SqliteSession_simps)
  note lf = load_found[OF new_SqliteSession_simps(1,2) found]
  have cache: "customEntities s = [] \<Longrightarrow> customEntities (fst (load ?n ?w)) = []"
    using load_cache_no_entities[OF new_SqliteSession_simps(1,2) found]
    by (simp add: new_SqliteSession_simps r_def)
  have ti: "truthy_int (truthy_number v) = truthy_number v" for v
    by (auto simp: truthy_int_def truthy_number_def split: option.splits number.splits)
  have fields: "entities r = (if customEntities s = [] then None
                       else Some (JSON_stringify (Object_fromEntries (customEntities s))))"
    "dc_id r = truthy_number (dcId s)" "row_port r = truthy_number (port s)"
    "server_address r = truthy_string (serverAddress s)"
    by (simp_all add: r_def)
  have stored: "(customEntities s = [] \<longrightarrow> entities r = None)
           \<and> (dcId s = Some (Num 0) \<longrightarrow> dc_id r = None)
           \<and> (port s = Some (Num 0) \<longrightarrow> row_port r = None)
           \<and> (serverAddress s = Some [] \<longrightarrow> server_address r = None)"
    by (simp add: fields truthy_number_def truthy_string_def)
  have loaded: "(dcId s = Some (Num 0) \<longrightarrow> dcId (fresh_load_after_save s w) = None)
       \<and> (port s = Some (Num 0) \<longrightarrow>
            port (fresh_load_after_save s w)
              = (if truthy_number (dcId s) = None then None else Some (Num 443)))
       \<and> (serverAddress s = Some [] \<longrightarrow>
            serverAddress (fresh_load_after_save s w)
              = (if truthy_number (dcId s) = None then None else Some []))
       \<and> (customEntities s = [] \<longrightarrow> customEntities (fresh_load_after_save s w) = [])"
    using lf(2,3,4) cache
    by (auto simp: fields fresh_load_after_save_def new_SqliteSession_simps ti
        truthy_number_def truthy_string_def truthy_int_def or_else_def
        split: option.splits number.splits if_splits)
  from saved stored loaded show ?thesis
    by blast
qed

theorem save_falsy_as_null_witness:
  "map dc_id (rows (the_table store_path (snd (snd (save zero_session empty_world))))) = [None]
   \<and> map row_port (rows (the_table store_path (snd (snd (save zero_session empty_world))))) = [None]
   \<and> dcId (fresh_load_after_save zero_session empty_world) = None
   \<and> port (fresh_load_after_save zero_session empty_world) = None
   \<and> serverAddress (fresh_load_after_save zero_session empty_world) = None
   \<and> customEntities (fresh_load_after_save zero_session empty_world) = []"
  using save_falsy_as_null [of zero_session empty_world]
  by (simp add: zero_session_def eval_defs)

text \<open>
  The claim C7 as it is stated has none of the values that count as false come back
  after a save and a load in a new controller. With a \<open>dcId\<close> of \<open>5\<close> the empty
  \<open>serverAddress\<close> is written as \<open>NULL\<close> and comes back as the empty string:
  \<open>load\<close> reads \<open>row.server_address || ''\<close>.
\<close>

theorem empty_address_counterexample:
  "serverAddress empty_address_session = Some []
   \<and> map server_address
        (rows (the_table store_path (snd (snd (save empty_address_session empty_world))))) = [None]
   \<and> serverAddress (fresh_load_after_save empty_address_session empty_world)
       = serverAddress empty_address_session"
  by (simp add: empty_address_session_def eval_defs)

section \<open>The two definitions of the class\<close>

lemma init_001_eq: "init_001 = init"
  by (intro ext) (simp add: init_001_def init_def)

lemma save_001_eq: "save_001 = save"
  by (intro ext) (simp add: save_001_def save_def init_001_eq)

lemma saveToDB_001_eq: "saveToDB_001 = saveToDB"
  by (intro ext) (simp add: saveToDB_001_def saveToDB_def save_001_eq)

lemma SqliteSession_setEntity_001_eq: "SqliteSession_setEntity_001 = SqliteSession_setEntity"
  by (intro ext) (simp add: SqliteSession_setEntity_001_def SqliteSession_setEntity_def saveToDB_001_eq)

lemma set_entries_001_eq: "set_entries_001 = set_entries"
proof (intro ext)
  fix ps s w
  show "set_entries_001 ps s w = set_entries ps s w"
    by (induction ps arbitrary: s w) (simp_all add: SqliteSession_setEntity_001_eq split_beta)
qed

lemma import_authKey_001_eq: "import_authKey_001 = import_authKey"
  by (intro ext) (simp add: import_authKey_001_def import_authKey_def)

text \<open>
  C10. The class \<open>SqliteSession\<close> of \<open>src/unnamed/part_001\<close> and the one of
  \<open>src/unnamed/part_000\<close> are the same functions: the constructor, every public
  method and every static member gives the same result, the same controller and the
  same world on every input.
\<close>

theorem class_definitions_equivalent:
  "new_SqliteSession_001 = new_SqliteSession
   \<and> load_001 = load
   \<and> save_001 = save
   \<and> setDC_001 = setDC
   \<and> get_authKey_001 = get_authKey
   \<and> set_authKey_001 = set_authKey
   \<and> SqliteSession_setEntity_001 = SqliteSession_setEntity
   \<and> exportToFile_001 = exportToFile
   \<and> importFromFile_001 = importFromFile
   \<and> delete_001 = delete
   \<and> close_001 = close
   \<and> getSessionInfo_001 = getSessionInfo
   \<and> SqliteSession_listSessions_001 = SqliteSession_listSessions
   \<and> SqliteSession_deleteSession_001 = SqliteSession_deleteSession
   \<and> SqliteSession_sessionExists_001 = SqliteSession_sessionExists
   \<and> SqliteSession_getSessionInfo_001 = SqliteSession_getSessionInfo"
proof -
  have "new_SqliteSession_001 = new_SqliteSession"
    by (intro ext) (simp add: new_SqliteSession_001_def new_SqliteSession_def)
  moreover have "load_001 = load"
    unfolding load_001_def load_def init_001_eq set_entries_001_eq by (rule refl)
  moreover have "setDC_001 = setDC"
    by (intro ext) (simp add: setDC_001_def setDC_def saveToDB_001_eq)
  moreover have "get_authKey_001 = get_authKey"
    by (intro ext) (simp add: get_authKey_001_def get_authKey_def)
  moreover have "set_authKey_001 = set_authKey"
    by (intro ext) (simp add: set_authKey_001_def set_authKey_def saveToDB_001_eq)
  moreover have "exportToFile_001 = exportToFile"
    by (intro ext) (simp add: exportToFile_001_def exportToFile_def)
  moreover have "importFromFile_001 = importFromFile"
    unfolding importFromFile_001_def importFromFile_def import_authKey_001_eq
      set_entries_001_eq save_001_eq by (rule refl)
  moreover have "delete_001 = delete"
    by (intro ext) (simp add: delete_001_def delete_def)
  moreover have "close_001 = close"
    by (intro ext) (simp add: close_001_def close_def)
  moreover have "getSessionInfo_001 = getSessionInfo"
    by (intro ext) (simp add: getSessionInfo_001_def getSessionInfo_def)
  moreover have "SqliteSession_listSessions_001 = SqliteSession_listSessions"
    by (intro ext) (simp add: SqliteSession_listSessions_001_def SqliteSession_listSessions_def)
  moreover have "SqliteSession_deleteSession_001 = SqliteSession_deleteSession"
    by (simp add: SqliteSession_deleteSession_001_def SqliteSession_deleteSession_def)
  moreover have "SqliteSession_sessionExists_001 = SqliteSession_sessionExists"
    by (simp add: SqliteSession_sessionExists_001_def SqliteSession_sessionExists_def)
  moreover have "SqliteSession_getSessionInfo_001 = SqliteSession_getSessionInfo"
    by (simp add: SqliteSession_getSessionInfo_001_def SqliteSession_getSessionInfo_def)
  ultimately show ?thesis
    by (simp add: save_001_eq SqliteSession_setEntity_001_eq)
qed

section \<open>Digits\<close>









section \<open>\<open>parseInt\<close> after \<open>toString\<close>\<close>









declare Number_toString.simps(2) [simp del]







section \<open>\<open>JSON.parse\<close> after \<open>JSON.stringify\<close>\<close>

subsection \<open>Strings\<close>








lemma parse_string_QuoteJSONString:
  "QuoteJSONString s @ rest = CHR 0x22 # quote_chars s @ CHR 0x22 # rest"
  by (simp add: QuoteJSONString_def)

subsection \<open>Numbers\<close>










subsection \<open>Values\<close>






lemma number_end_simps [simp]:
  "number_end (CHR '','' # r)" "number_end (CHR '']'' # r)" "number_end (CHR ''}'' # r)"
  "number_end []"
  by (simp_all add: number_end_def is_digit_def digit_val_def)









section \<open>Objects and their properties\<close>











section \<open>The entity map through the store\<close>








lemma stringify_obj_not_Nil: "JSON_stringify (JObj ps) \<noteq> []"
  by simp


section \<open>Saving and loading again\<close>







end
